theory Spec2Isabelle
  imports Main
begin

section \<open>JavaScript values used by the program\<close>

text \<open>
  A JavaScript string is modelled as a \<^typ>\<open>string\<close>; one \<^typ>\<open>char\<close> stands for one
  UTF-16 code unit below 256, so \<open>length\<close> is the source's \<open>.length\<close> on such strings.
  A JavaScript number that the program only ever obtains from \<open>Number.parseInt\<close> is an
  \<^typ>\<open>int option\<close>: \<open>None\<close> is \<open>NaN\<close>. Comparing the exact integer with 10 and 100
  gives the same answer as comparing its nearest double, since both bounds are doubles
  and rounding is monotone.
\<close>

type_synonym number = "int option"

text \<open>
  \<open>WhiteSpace\<close> and \<open>LineTerminator\<close> of ECMAScript, restricted to code units below 256:
  TAB, LF, VT, FF, CR, SP and NBSP. \<open>String.prototype.trim\<close>, the prefix skipped by
  \<open>parseInt\<close> and the class \<open>\s\<close> of regular expressions all use this set.
\<close>

definition isWhiteSpace :: "char \<Rightarrow> bool" where
  "isWhiteSpace c = (of_char c \<in> {9, 10, 11, 12, 13, 32, 160 :: nat})"

definition trim :: "string \<Rightarrow> string" where
  "trim s = rev (dropWhile isWhiteSpace (rev (dropWhile isWhiteSpace s)))"

definition isDigit :: "char \<Rightarrow> bool" where
  "isDigit c = (48 \<le> (of_char c :: nat) \<and> (of_char c :: nat) \<le> 57)"

text \<open>The value of a code unit as a digit of \<open>parseInt\<close>: 0-9, then a-z or A-Z for 10-35.\<close>

definition digitValue :: "char \<Rightarrow> nat option" where
  "digitValue c =
     (let n = (of_char c :: nat) in
      if 48 \<le> n \<and> n \<le> 57 then Some (n - 48)
      else if 97 \<le> n \<and> n \<le> 122 then Some (n - 87)
      else if 65 \<le> n \<and> n \<le> 90 then Some (n - 55)
      else None)"

definition isRadixDigit :: "nat \<Rightarrow> char \<Rightarrow> bool" where
  "isRadixDigit R c = (case digitValue c of None \<Rightarrow> False | Some d \<Rightarrow> d < R)"

text \<open>The mathematical integer written by a string of radix-\<open>R\<close> digits, most significant first.\<close>

fun digitsValue :: "nat \<Rightarrow> nat \<Rightarrow> string \<Rightarrow> nat" where
  "digitsValue R acc [] = acc"
| "digitsValue R acc (c # cs) =
     digitsValue R (acc * R + (case digitValue c of None \<Rightarrow> 0 | Some d \<Rightarrow> d)) cs"

text \<open>
  \<open>Number.parseInt(string, radix)\<close> after ECMA-262: skip leading white space, read one
  sign, fix the radix (\<open>undefined\<close>, here \<open>None\<close>, and 0 mean 10 with a \<open>0x\<close> prefix
  switching to 16), take the longest prefix of digits, and answer \<open>NaN\<close> when it is empty.
\<close>

definition parseInt :: "string \<Rightarrow> nat option \<Rightarrow> number" where
  "parseInt inputString radix =
     (let S = dropWhile isWhiteSpace inputString;
          sign = (if S \<noteq> [] \<and> hd S = CHR ''-'' then - 1 else 1 :: int);
          S1 = (if S \<noteq> [] \<and> (hd S = CHR ''+'' \<or> hd S = CHR ''-'') then tl S else S);
          R0 = (case radix of None \<Rightarrow> 0 | Some r \<Rightarrow> r);
          stripPrefix = (R0 = 0 \<or> R0 = 16);
          R1 = (if R0 = 0 then 10 else R0)
      in if R1 < 2 \<or> 36 < R1 then None
         else
           let hex = (stripPrefix \<and> (take 2 S1 = ''0x'' \<or> take 2 S1 = ''0X''));
               S2 = (if hex then drop 2 S1 else S1);
               R = (if hex then 16 else R1);
               Z = takeWhile (isRadixDigit R) S2
           in if Z = [] then None else Some (sign * int (digitsValue R 0 Z)))"

text \<open>\<open>n.toString()\<close> for a non-negative integer below \<open>10^21\<close>: its decimal digits.\<close>

definition digitChar :: "nat \<Rightarrow> char" where
  "digitChar d = ''0123456789'' ! d"

function toString_nat :: "nat \<Rightarrow> string" where
  "toString_nat n = (if n < 10 then [digitChar n] else toString_nat (n div 10) @ [digitChar (n mod 10)])"
  by pat_completeness auto
termination
  by (relation "measure id") auto

declare toString_nat.simps [simp del]

text \<open>
  Reading a property \<open>o[k]\<close> of an object created by an object literal \<open>{...}\<close> and used as
  a dictionary: an own property wins; a name that \<open>Object.prototype\<close> defines yields the
  inherited value (a function, or for \<open>__proto__\<close> the prototype object itself), which is
  truthy and is not an array; any other name yields \<open>undefined\<close>.
\<close>

datatype 'a property = Own 'a | Inherited | Absent

definition objectPrototypeNames :: "string list" where
  "objectPrototypeNames =
     [''constructor'', ''hasOwnProperty'', ''isPrototypeOf'', ''propertyIsEnumerable'',
      ''toLocaleString'', ''toString'', ''valueOf'', ''__proto__'',
      ''__defineGetter__'', ''__defineSetter__'', ''__lookupGetter__'', ''__lookupSetter__'']"

definition getProperty :: "(string \<rightharpoonup> 'a) \<Rightarrow> string \<Rightarrow> 'a property" where
  "getProperty obj k =
     (case obj k of
        Some v \<Rightarrow> Own v
      | None \<Rightarrow> if k \<in> set objectPrototypeNames then Inherited else Absent)"

section \<open>Regular expressions of the rule table\<close>

text \<open>
  The three patterns of the rule table use character classes, concatenation, \<open>+\<close>,
  \<open>{n}\<close> and \<open>?\<close>, anchored by \<open>^\<close> and \<open>$\<close> with no flag, so \<open>test\<close> asks whether the
  whole string is in the language. Matching is by derivatives.
\<close>

datatype regex =
    Zero
  | Eps
  | Class "char \<Rightarrow> bool"
  | Seq regex regex
  | Alt regex regex
  | Star regex

fun nullable :: "regex \<Rightarrow> bool" where
  "nullable Zero = False"
| "nullable Eps = True"
| "nullable (Class p) = False"
| "nullable (Seq r s) = (nullable r \<and> nullable s)"
| "nullable (Alt r s) = (nullable r \<or> nullable s)"
| "nullable (Star r) = True"

fun deriv :: "char \<Rightarrow> regex \<Rightarrow> regex" where
  "deriv c Zero = Zero"
| "deriv c Eps = Zero"
| "deriv c (Class p) = (if p c then Eps else Zero)"
| "deriv c (Seq r s) =
     (if nullable r then Alt (Seq (deriv c r) s) (deriv c s) else Seq (deriv c r) s)"
| "deriv c (Alt r s) = Alt (deriv c r) (deriv c s)"
| "deriv c (Star r) = Seq (deriv c r) (Star r)"

fun test :: "regex \<Rightarrow> string \<Rightarrow> bool" where
  "test r [] = nullable r"
| "test r (c # cs) = test (deriv c r) cs"

definition Plus :: "regex \<Rightarrow> regex" where
  "Plus r = Seq r (Star r)"

definition Opt :: "regex \<Rightarrow> regex" where
  "Opt r = Alt r Eps"

fun Rep :: "nat \<Rightarrow> regex \<Rightarrow> regex" where
  "Rep 0 r = Eps"
| "Rep (Suc n) r = Seq r (Rep n r)"

definition Lit :: "char \<Rightarrow> regex" where
  "Lit c = Class (\<lambda>x. x = c)"

text \<open>\<open>[^\s@]\<close> and \<open>\d\<close>.\<close>

definition notSpaceAt :: "char \<Rightarrow> bool" where
  "notSpaceAt c = (\<not> isWhiteSpace c \<and> c \<noteq> CHR ''@'')"

text \<open>\<open>/^[^\s@]+@[^\s@]+\.[^\s@]+$/\<close>\<close>

definition emailRegex :: regex where
  "emailRegex =
     Seq (Plus (Class notSpaceAt))
       (Seq (Lit CHR ''@'')
         (Seq (Plus (Class notSpaceAt))
           (Seq (Lit CHR ''.'') (Plus (Class notSpaceAt)))))"

text \<open>\<open>/^\d{10}$/\<close>\<close>

definition phoneRegex :: regex where
  "phoneRegex = Rep 10 (Class isDigit)"

text \<open>\<open>/^\d{5}(-\d{4})?$/\<close>\<close>

definition zipRegex :: regex where
  "zipRegex = Seq (Rep 5 (Class isDigit)) (Opt (Seq (Lit CHR ''-'') (Rep 4 (Class isDigit))))"

section \<open>The validation service\<close>

text \<open>
  The built-in \<open>Date\<close> is the runtime's, not the program's: what the program reads from it
  is a parameter. \<open>Date_getFullYear s\<close> is \<open>new Date(s).getFullYear()\<close>, \<open>None\<close> for an
  invalid date (whose \<open>getTime()\<close> is \<open>NaN\<close>); \<open>today_getFullYear\<close> is
  \<open>new Date().getFullYear()\<close>; \<open>Date_now\<close> is \<open>Date.now()\<close>; \<open>Date_toISOString\<close> is
  \<open>new Date().toISOString()\<close>.
\<close>

record runtime =
  Date_getFullYear :: "string \<Rightarrow> int option"
  today_getFullYear :: int
  Date_now :: nat
  Date_toISOString :: string

record ValidationRule =
  logic :: "string \<Rightarrow> bool"
  errorMessage :: string

text \<open>
  An object literal lists its own properties in insertion order (no key here is an
  integer index), so the table and each field's rules are association lists in the
  order of the source; \<open>Object.entries\<close> returns that order.
\<close>

type_synonym FieldRules = "(string \<times> (string \<times> ValidationRule) list) list"

definition required :: "string \<Rightarrow> (string \<times> ValidationRule)" where
  "required msg = (''required'', \<lparr>logic = (\<lambda>v. trim v \<noteq> ''''), errorMessage = msg\<rparr>)"

definition validationRules :: "runtime \<Rightarrow> FieldRules" where
  "validationRules rt =
     [(''name'',
        [required ''Name is required'',
         (''minLength'', \<lparr>logic = (\<lambda>v. length v \<ge> 3),
                          errorMessage = ''Name must be 3 characters or more''\<rparr>),
         (''maxLength'', \<lparr>logic = (\<lambda>v. length v \<le> 50),
                          errorMessage = ''Name must be 50 characters or less''\<rparr>)]),
      (''email'',
        [required ''Email is required'',
         (''format'', \<lparr>logic = test emailRegex, errorMessage = ''Invalid email format''\<rparr>)]),
      (''phone'',
        [required ''Phone number is required'',
         (''format'', \<lparr>logic = test phoneRegex,
                       errorMessage = ''Phone number must be exactly 10 digits''\<rparr>)]),
      (''dob'',
        [required ''Date of birth is required'',
         (''validDate'', \<lparr>logic = (\<lambda>v. Date_getFullYear rt v \<noteq> None),
                          errorMessage = ''Invalid date format''\<rparr>),
         (''ageLimit'',
            \<lparr>logic = (\<lambda>v. case Date_getFullYear rt v of
                              None \<Rightarrow> False
                            | Some y \<Rightarrow> today_getFullYear rt - y \<ge> 10 \<and> today_getFullYear rt - y \<le> 100),
             errorMessage = ''You must be between 10 and 100 years old''\<rparr>)]),
      (''age'',
        [required ''Age is required'',
         (''validRange'',
            \<lparr>logic = (\<lambda>v. case parseInt v (Some 10) of
                              None \<Rightarrow> False
                            | Some a \<Rightarrow> a \<ge> 10 \<and> a \<le> 100),
             errorMessage = ''Age must be between 10 and 100''\<rparr>)]),
      (''country'', [required ''Country is required'']),
      (''state'', [required ''State is required'']),
      (''city'', [required ''City is required'']),
      (''zip'',
        [required ''ZIP code is required'',
         (''format'', \<lparr>logic = test zipRegex,
                       errorMessage = ''Invalid ZIP code format (e.g., 12345 or 12345-6789)''\<rparr>)])]"

text \<open>The \<open>for\<close> loop of \<open>validateField\<close>: it returns at the first rule whose logic fails.\<close>

fun firstFailure :: "(string \<times> ValidationRule) list \<Rightarrow> string \<Rightarrow> string option" where
  "firstFailure [] v = None"
| "firstFailure ((ruleName, rule) # rest) v =
     (if \<not> logic rule v then Some (errorMessage rule) else firstFailure rest v)"

text \<open>
  \<open>validationRules[fieldName]\<close> is a property read. For an inherited name the value is
  truthy, so the early return is not taken, and \<open>Object.entries\<close> of it is empty (it
  has no own enumerable property): the loop does nothing and \<open>null\<close> is returned.
\<close>

definition validateField :: "runtime \<Rightarrow> string \<Rightarrow> string \<Rightarrow> string option" where
  "validateField rt fieldName v =
     (case getProperty (map_of (validationRules rt)) fieldName of
        Absent \<Rightarrow> None
      | Inherited \<Rightarrow> firstFailure [] v
      | Own rules \<Rightarrow> firstFailure rules v)"

section \<open>Records, the state manager and local storage\<close>

text \<open>
  \<open>FormData\<close> of \<open>Interfaces.ts\<close>. The fields \<open>id\<close> and \<open>zip\<close> carry a prime, their plain
  names being constants of the library. \<open>restoreData\<close> is \<open>any[]\<close> and is only ever
  written as the empty array, so its elements are opaque.
\<close>

record FormData =
  id' :: string
  name :: string
  phone :: string
  email :: string
  dob :: string
  age :: number
  country :: string
  state :: string
  city :: string
  zip' :: string
  restoreData :: "unit list"
  timeStamp :: string

text \<open>
  What \<open>JSON.parse\<close> can return from the deleted-history entry: records, and arrays of
  such values. A record object that the program holds in memory is named by a
  reference, a natural number. The field \<open>deletedData\<close> is declared \<open>any\<close> and holds
  \<open>null\<close>, \<open>undefined\<close>, a parsed value, or a reference to a record object.
\<close>

datatype jsval = JObj FormData | JArr "jsval list"

datatype slot = Null | Undefined | Val jsval | Ref nat

datatype error = TypeError

text \<open>Objects and arrays are truthy (also the empty array); \<open>null\<close> and \<open>undefined\<close> are not.\<close>

fun truthy :: "slot \<Rightarrow> bool" where
  "truthy Null = False"
| "truthy Undefined = False"
| "truthy (Val v) = True"
| "truthy (Ref k) = True"

text \<open>
  The browser's \<open>localStorage\<close>, restricted to the two keys of the program. An entry is
  absent (\<open>None\<close>) or holds the JSON text of an array, represented by the array it parses
  to: the program itself only ever stores \<open>JSON.stringify\<close> of an array under either key.
\<close>

record localStorage =
  appStateData :: "FormData list option"
  appStateDeletedData :: "jsval list option"

text \<open>
  The state manager, the record objects and the storage. \<open>objects\<close> is the store: it
  gives the current contents of the record object behind each reference. \<open>data\<close> is
  \<open>this.data\<close>, an array of references, so an assignment to a field of an object shows
  in every array that holds the object. An array in \<open>deletedData\<close> is held by its
  contents: an array reaches the slot only in \<open>setDeletedData\<close>, which serialises it in
  the same call, and in \<open>loadData\<close>, where it is freshly parsed and nothing else refers
  to it or to its elements.
\<close>

record AppStateManager =
  objects :: "nat \<Rightarrow> FormData"
  data :: "nat list"
  deletedData :: slot
  storage :: localStorage

text \<open>The contents of a store cell that no reference reaches.\<close>

definition noObject :: FormData where
  "noObject =
     \<lparr>id' = [], name = [], phone = [], email = [], dob = [], age = None, country = [],
      state = [], city = [], zip' = [], restoreData = [], timeStamp = []\<rparr>"

text \<open>
  \<open>this.deletedData.timeStamp = ...\<close> followed by \<open>JSON.stringify\<close>: on a record the field
  is overwritten; on an array the assignment creates a property that \<open>JSON.stringify\<close>
  does not write, so the stored array is unchanged.
\<close>

fun setTimeStamp :: "string \<Rightarrow> jsval \<Rightarrow> jsval" where
  "setTimeStamp ts (JObj r) = JObj (r\<lparr>timeStamp := ts\<rparr>)"
| "setTimeStamp ts (JArr xs) = JArr xs"

text \<open>\<open>localStorage.getItem("appStateDeletedData") ? ... : "[]"\<close>, parsed.\<close>

definition readDeleted :: "localStorage \<Rightarrow> jsval list" where
  "readDeleted ls = (case appStateDeletedData ls of None \<Rightarrow> [] | Some h \<Rightarrow> h)"

text \<open>
  \<open>deleteData\<close> writes the time stamp into the staged object itself: for a reference
  the store changes, and with it every array that holds the object, \<open>data\<close> included.
\<close>

definition deleteData :: "runtime \<Rightarrow> AppStateManager \<Rightarrow> error + AppStateManager" where
  "deleteData rt sm =
     (let getDeletedData = readDeleted (storage sm) in
      case deletedData sm of
        Null \<Rightarrow> Inl TypeError
      | Undefined \<Rightarrow> Inl TypeError
      | Val v \<Rightarrow>
          Inr (sm\<lparr>storage := (storage sm)\<lparr>appStateDeletedData :=
                       Some (getDeletedData @ [setTimeStamp (Date_toISOString rt) v])\<rparr>,
                   deletedData := Null\<rparr>)
      | Ref k \<Rightarrow>
          let stamped = (objects sm k)\<lparr>timeStamp := Date_toISOString rt\<rparr> in
          Inr (sm\<lparr>objects := (objects sm)(k := stamped),
                   storage := (storage sm)\<lparr>appStateDeletedData :=
                       Some (getDeletedData @ [JObj stamped])\<rparr>,
                   deletedData := Null\<rparr>))"

definition saveData :: "runtime \<Rightarrow> AppStateManager \<Rightarrow> error + AppStateManager" where
  "saveData rt sm =
     (let sm1 = sm\<lparr>storage := (storage sm)\<lparr>appStateData := Some (map (objects sm) (data sm))\<rparr>\<rparr> in
      if truthy (deletedData sm1) then deleteData rt sm1 else Inr sm1)"

text \<open>
  \<open>loadData\<close> runs in the constructor, when the program holds no object yet:
  \<open>JSON.parse(savedData)\<close> makes one new object for each saved record, here the
  references \<open>0, 1, ...\<close> in the order of the saved list.
\<close>

definition loadData :: "localStorage \<Rightarrow> AppStateManager" where
  "loadData ls =
     \<lparr>objects = (case appStateData ls of
                   None \<Rightarrow> (\<lambda>k. noObject)
                 | Some savedData \<Rightarrow> (\<lambda>k. if k < length savedData then savedData ! k else noObject)),
      data = (case appStateData ls of None \<Rightarrow> [] | Some savedData \<Rightarrow> [0..<length savedData]),
      deletedData = (case appStateDeletedData ls of
                       None \<Rightarrow> Null
                     | Some savedDeletedData \<Rightarrow> Val (JArr savedDeletedData)),
      storage = ls\<rparr>"

text \<open>The first \<open>getInstance()\<close> of a page load runs the constructor, which is \<open>loadData\<close>.\<close>

definition getInstance :: "localStorage \<Rightarrow> AppStateManager" where
  "getInstance ls = loadData ls"

text \<open>
  \<open>getData()\<close> returns \<open>this.data\<close>; its value here is the list of records that a
  caller reads from the returned array at the time of the call.
\<close>

definition getData :: "AppStateManager \<Rightarrow> FormData list" where
  "getData sm = map (objects sm) (data sm)"

definition setData :: "nat list \<Rightarrow> runtime \<Rightarrow> AppStateManager \<Rightarrow> error + AppStateManager" where
  "setData newData rt sm = saveData rt (sm\<lparr>data := newData\<rparr>)"

definition getDeletedData :: "AppStateManager \<Rightarrow> jsval list" where
  "getDeletedData sm = readDeleted (storage sm)"

definition setDeletedData :: "jsval list \<Rightarrow> runtime \<Rightarrow> AppStateManager \<Rightarrow> error + AppStateManager" where
  "setDeletedData newDeletedData rt sm = saveData rt (sm\<lparr>deletedData := Val (JArr newDeletedData)\<rparr>)"





section \<open>The event emitter\<close>

text \<open>
  \<open>listeners\<close> is an object literal used as a dictionary from event names to arrays of
  callbacks. A callback is a transformer of the state \<open>'s\<close> of the rest of the program
  (which does not contain the emitter) that may throw; \<open>forEach\<close> stops at a throw.
  The method \<open>remove\<close> compares callbacks by reference, which a function of HOL does
  not have; it is called nowhere in the program and is left out.
\<close>

type_synonym ('a, 's) callback = "'a list \<Rightarrow> 's \<Rightarrow> error + 's"

record ('a, 's) EventEmitter =
  listeners :: "string \<rightharpoonup> ('a, 's) callback list"

definition newEventEmitter :: "('a, 's) EventEmitter" where
  "newEventEmitter = \<lparr>listeners = Map.empty\<rparr>"

definition on :: "string \<Rightarrow> ('a, 's) callback \<Rightarrow> ('a, 's) EventEmitter \<Rightarrow> error + ('a, 's) EventEmitter" where
  "on eventName cb em =
     (case getProperty (listeners em) eventName of
        Absent \<Rightarrow> Inr (em\<lparr>listeners := (listeners em)(eventName \<mapsto> [] @ [cb])\<rparr>)
      | Own eventListeners \<Rightarrow> Inr (em\<lparr>listeners := (listeners em)(eventName \<mapsto> eventListeners @ [cb])\<rparr>)
      | Inherited \<Rightarrow> Inl TypeError)"

fun forEach :: "('a, 's) callback list \<Rightarrow> 'a list \<Rightarrow> 's \<Rightarrow> error + 's" where
  "forEach [] args s = Inr s"
| "forEach (cb # cbs) args s =
     (case cb args s of Inl e \<Rightarrow> Inl e | Inr s1 \<Rightarrow> forEach cbs args s1)"

definition emit :: "('a, 's) EventEmitter \<Rightarrow> string \<Rightarrow> 'a list \<Rightarrow> 's \<Rightarrow> error + 's" where
  "emit em eventName args s =
     (case getProperty (listeners em) eventName of
        Absent \<Rightarrow> Inr s
      | Own eventListeners \<Rightarrow> forEach eventListeners args s
      | Inherited \<Rightarrow> Inl TypeError)"

text \<open>Registering a list of (name, callback) pairs in order, from a given emitter.\<close>

fun onAll :: "(string \<times> ('a, 's) callback) list \<Rightarrow> ('a, 's) EventEmitter \<Rightarrow> error + ('a, 's) EventEmitter" where
  "onAll [] em = Inr em"
| "onAll ((eventName, cb) # rest) em =
     (case on eventName cb em of Inl e \<Rightarrow> Inl e | Inr em1 \<Rightarrow> onAll rest em1)"

section \<open>The form, the table and the application component\<close>

text \<open>
  \<open>String.prototype.toLowerCase\<close> on code units below 256: A-Z and the upper-case
  letters of Latin-1 (all of 192-222 but the multiplication sign 215) move up by 32.
\<close>

definition toLowerCase :: "string \<Rightarrow> string" where
  "toLowerCase s =
     map (\<lambda>c. let n = (of_char c :: nat) in
               if (65 \<le> n \<and> n \<le> 90) \<or> (192 \<le> n \<and> n \<le> 222 \<and> n \<noteq> 215)
               then char_of (n + 32) else c) s"

text \<open>The state of a \<open>FormComponent\<close> that is not in the DOM.\<close>

record FormComponent =
  isEditMode :: bool
  editId :: "string option"
  errors :: "string \<rightharpoonup> string"

definition newFormComponent :: FormComponent where
  "newFormComponent = \<lparr>isEditMode = False, editId = None, errors = Map.empty\<rparr>"

text \<open>\<open>render(editData?)\<close>: \<open>isEditMode = !!editData\<close> and \<open>editId = editData?.id || null\<close>.\<close>

definition render :: "FormData option \<Rightarrow> FormComponent \<Rightarrow> FormComponent" where
  "render editData fc =
     (case editData of
        None \<Rightarrow> fc\<lparr>isEditMode := False, editId := None\<rparr>
      | Some d \<Rightarrow> fc\<lparr>isEditMode := True, editId := (if id' d = [] then None else Some (id' d))\<rparr>)"

text \<open>
  The values of the nine inputs of the form, by field name: \<open>field.value\<close> of
  \<open>querySelector\<close> and \<open>formData.get\<close> both read them.
\<close>

type_synonym formValues = "string \<Rightarrow> string"

definition formFields :: "string list" where
  "formFields = [''name'', ''phone'', ''email'', ''dob'', ''age'', ''country'', ''state'', ''city'', ''zip'']"

text \<open>
  The method \<open>validateField\<close> of the form: it stores a non-empty message under the field's
  name in \<open>errors\<close> and deletes the entry otherwise.
\<close>

definition FormComponent_validateField :: "runtime \<Rightarrow> formValues \<Rightarrow> string \<Rightarrow> FormComponent \<Rightarrow> FormComponent" where
  "FormComponent_validateField rt form fieldName fc =
     (case validateField rt fieldName (form fieldName) of
        None \<Rightarrow> fc\<lparr>errors := (errors fc)(fieldName := None)\<rparr>
      | Some msg \<Rightarrow>
          if msg \<noteq> [] then fc\<lparr>errors := (errors fc)(fieldName \<mapsto> msg)\<rparr>
          else fc\<lparr>errors := (errors fc)(fieldName := None)\<rparr>)"

text \<open>The \<open>forEach\<close> of \<open>validateForm\<close>, carrying \<open>isValid\<close>.\<close>

fun validateFields :: "runtime \<Rightarrow> formValues \<Rightarrow> string list \<Rightarrow> bool \<times> FormComponent \<Rightarrow> bool \<times> FormComponent" where
  "validateFields rt form [] (isValid, fc) = (isValid, fc)"
| "validateFields rt form (fieldName # rest) (isValid, fc) =
     (let fc1 = FormComponent_validateField rt form fieldName fc in
      validateFields rt form rest
        (case errors fc1 fieldName of
           None \<Rightarrow> isValid
         | Some m \<Rightarrow> if m \<noteq> [] then False else isValid, fc1))"

definition validateForm :: "runtime \<Rightarrow> formValues \<Rightarrow> FormComponent \<Rightarrow> bool \<times> FormComponent" where
  "validateForm rt form fc = validateFields rt form formFields (True, fc)"

text \<open>
  The application component after its constructor has run. \<open>dataToBeRestore\<close> is declared
  \<open>any\<close>; \<open>deleteModalDataId\<close> is the \<open>data-id\<close> attribute of the delete modal.
\<close>

record AppComponent =
  stateManager :: AppStateManager
  dataToBeRestore :: slot
  formComponent :: FormComponent
  deleteModalDataId :: "string option"

text \<open>An event carries an id or a record object.\<close>

datatype arg = ArgId string | ArgData nat

text \<open>
  An object literal and \<open>JSON.parse\<close> make a new object: one that differs from every
  object the program holds a reference to, in \<open>data\<close>, in \<open>deletedData\<close> or in
  \<open>dataToBeRestore\<close>.
\<close>

fun slotRefs :: "slot \<Rightarrow> nat list" where
  "slotRefs (Ref k) = [k]"
| "slotRefs s = []"

definition newObject :: "FormData \<Rightarrow> AppComponent \<Rightarrow> nat \<times> AppComponent" where
  "newObject r app =
     (let sm = stateManager app;
          k = Suc (foldr max (data sm @ slotRefs (deletedData sm) @ slotRefs (dataToBeRestore app)) 0)
      in (k, app\<lparr>stateManager := sm\<lparr>objects := (objects sm)(k := r)\<rparr>\<rparr>))"

definition initializeComponents :: "AppComponent \<Rightarrow> AppComponent" where
  "initializeComponents app = app\<lparr>formComponent := render None newFormComponent\<rparr>"

text \<open>
  In the handlers \<open>currentData\<close> is the array that \<open>getData()\<close> returns, that is the
  references in \<open>data\<close>; \<open>item.id\<close> reads the object behind a reference.
\<close>

definition addData :: "runtime \<Rightarrow> nat \<Rightarrow> AppComponent \<Rightarrow> error + AppComponent" where
  "addData rt d app =
     (let currentData = data (stateManager app) in
      case setData (d # currentData) rt (stateManager app) of
        Inl e \<Rightarrow> Inl e
      | Inr sm \<Rightarrow> Inr (app\<lparr>stateManager := sm\<rparr>))"

definition editItem :: "string \<Rightarrow> AppComponent \<Rightarrow> error + AppComponent" where
  "editItem i app =
     (let sm = stateManager app in
      case find (\<lambda>item. id' (objects sm item) = i) (data sm) of
        None \<Rightarrow> Inr app
      | Some itemToEdit \<Rightarrow>
          Inr (app\<lparr>dataToBeRestore := Ref itemToEdit,
                   formComponent := render (Some (objects sm itemToEdit)) (formComponent app)\<rparr>))"

definition updateData :: "runtime \<Rightarrow> nat \<Rightarrow> AppComponent \<Rightarrow> error + AppComponent" where
  "updateData rt d app =
     (let sm = stateManager app;
          currentData = data sm;
          updatedData = map (\<lambda>item. if id' (objects sm item) = id' (objects sm d) then d else item)
                          currentData;
          sm1 = sm\<lparr>deletedData := dataToBeRestore app\<rparr>
      in case setData updatedData rt sm1 of
           Inl e \<Rightarrow> Inl e
         | Inr sm2 \<Rightarrow>
             Inr (app\<lparr>stateManager := sm2,
                      formComponent := render None (formComponent app),
                      dataToBeRestore := Null\<rparr>))"

definition showDeleteConfirmation :: "string \<Rightarrow> AppComponent \<Rightarrow> error + AppComponent" where
  "showDeleteConfirmation i app = Inr (app\<lparr>deleteModalDataId := Some i\<rparr>)"

definition handleDeleteData :: "runtime \<Rightarrow> string \<Rightarrow> AppComponent \<Rightarrow> error + AppComponent" where
  "handleDeleteData rt i app =
     (let sm = stateManager app;
          currentData = data sm;
          foundItem = find (\<lambda>item. id' (objects sm item) = i) currentData;
          sm1 = sm\<lparr>deletedData := (case foundItem of None \<Rightarrow> Undefined | Some k \<Rightarrow> Ref k)\<rparr>;
          updatedData = filter (\<lambda>item. id' (objects sm item) \<noteq> i) currentData
      in case setData updatedData rt sm1 of
           Inl e \<Rightarrow> Inl e
         | Inr sm2 \<Rightarrow> Inr (initializeComponents (app\<lparr>stateManager := sm2\<rparr>)))"

definition handleRestoreDeleteData :: "runtime \<Rightarrow> string \<Rightarrow> AppComponent \<Rightarrow> error + AppComponent" where
  "handleRestoreDeleteData rt i app =
     (let sm = stateManager app;
          currentData = data sm;
          sm1 = sm\<lparr>deletedData := Null\<rparr>;
          updatedData = filter (\<lambda>item. id' (objects sm item) \<noteq> i) currentData
      in case setData updatedData rt sm1 of
           Inl e \<Rightarrow> Inl e
         | Inr sm2 \<Rightarrow> Inr (initializeComponents (app\<lparr>stateManager := sm2\<rparr>)))"

text \<open>
  The listeners that \<open>addEventListeners\<close> registers on the emitter, in the order of the
  source. Each arrow function passes its first argument on; TypeScript only lets the
  components call them with the payload of their signature, and the model leaves the
  state as it is for any other shape. \<open>showRestoreModal\<close> only touches the DOM.
\<close>

definition appListeners :: "runtime \<Rightarrow> (string \<times> (arg, AppComponent) callback) list" where
  "appListeners rt =
     [(''formSubmit'', \<lambda>args app. case args of ArgData d # _ \<Rightarrow> addData rt d app | _ \<Rightarrow> Inr app),
      (''editItem'', \<lambda>args app. case args of ArgId i # _ \<Rightarrow> editItem i app | _ \<Rightarrow> Inr app),
      (''updateFormData'', \<lambda>args app. case args of ArgData d # _ \<Rightarrow> updateData rt d app | _ \<Rightarrow> Inr app),
      (''showDeleteConfirmation'',
         \<lambda>args app. case args of ArgId i # _ \<Rightarrow> showDeleteConfirmation i app | _ \<Rightarrow> Inr app),
      (''showRestoreModal'', \<lambda>args app. Inr app),
      (''deleteData'', \<lambda>args app. case args of ArgId i # _ \<Rightarrow> handleDeleteData rt i app | _ \<Rightarrow> Inr app),
      (''restoreDeleteData'',
         \<lambda>args app. case args of ArgId i # _ \<Rightarrow> handleRestoreDeleteData rt i app | _ \<Rightarrow> Inr app)]"

definition addEventListeners :: "runtime \<Rightarrow> (arg, AppComponent) EventEmitter \<Rightarrow> error + (arg, AppComponent) EventEmitter" where
  "addEventListeners rt em = onAll (appListeners rt) em"

text \<open>
  The emitter of a constructed application: \<open>new EventEmitter()\<close> followed by
  \<open>addEventListeners\<close>, which does not throw (lemma \<open>addEventListeners_ok\<close> below).
\<close>

definition eventEmitter :: "runtime \<Rightarrow> (arg, AppComponent) EventEmitter" where
  "eventEmitter rt =
     (case addEventListeners rt newEventEmitter of Inr em \<Rightarrow> em | Inl e \<Rightarrow> newEventEmitter)"

text \<open>The constructor of \<open>AppComponent\<close> on a page whose storage is \<open>ls\<close>.\<close>

definition newAppComponent :: "localStorage \<Rightarrow> AppComponent" where
  "newAppComponent ls =
     initializeComponents
       \<lparr>stateManager = getInstance ls, dataToBeRestore = Undefined,
        formComponent = newFormComponent, deleteModalDataId = None\<rparr>"

text \<open>
  \<open>confirmDelete\<close>, the click handler of the delete modal's button; \<open>inputValue\<close> is the
  text typed into the modal. The array handed to \<open>setDeletedData\<close> is serialised in that
  call, so the deleted object enters it with its contents of that moment.
\<close>

definition confirmDelete :: "(arg, AppComponent) EventEmitter \<Rightarrow> runtime \<Rightarrow> string \<Rightarrow> AppComponent \<Rightarrow> error + AppComponent" where
  "confirmDelete em rt inputValue app =
     (case deleteModalDataId app of
        None \<Rightarrow> Inr app
      | Some i \<Rightarrow>
          if toLowerCase inputValue = ''delete'' \<and> i \<noteq> [] then
            let sm = stateManager app;
                currentData = data sm in
            case find (\<lambda>item. id' (objects sm item) = i) currentData of
              None \<Rightarrow> Inr app
            | Some itemToDelete \<Rightarrow>
                let updatedData = filter (\<lambda>item. id' (objects sm item) \<noteq> i) currentData in
                (case setData updatedData rt sm of
                   Inl e \<Rightarrow> Inl e
                 | Inr sm1 \<Rightarrow>
                     let currentDeletedData = getDeletedData sm1 in
                     (case setDeletedData
                             (JObj (objects sm1 itemToDelete) # take 2 currentDeletedData) rt sm1 of
                        Inl e \<Rightarrow> Inl e
                      | Inr sm2 \<Rightarrow> emit em ''deleteData'' [ArgId i] (app\<lparr>stateManager := sm2\<rparr>)))
          else Inr app)"

text \<open>
  The table shows one row for each active record, with an edit, a delete and a restore
  button that carry the record's id as \<open>data-id\<close>; every handler that changes the
  active set renders the table again from \<open>getData()\<close>.
\<close>

definition tableRows :: "AppComponent \<Rightarrow> string list" where
  "tableRows app = map id' (getData (stateManager app))"

text \<open>
  A click on the delete button of the row with id \<open>i\<close>, followed by a click on the
  confirm button of the popup with \<open>inputValue\<close> typed in. \<open>openDeleteConfirmationPopup\<close>
  returns at once for an empty id, and then there is no popup and no confirm button.
\<close>

definition confirmDeleteButton :: "(arg, AppComponent) EventEmitter \<Rightarrow> string \<Rightarrow> string \<Rightarrow> AppComponent \<Rightarrow> error + AppComponent" where
  "confirmDeleteButton em inputValue i app =
     (if i = [] then Inr app
      else if toLowerCase (trim inputValue) = ''delete'' then emit em ''deleteData'' [ArgId i] app
      else Inr app)"

text \<open>
  The rows of the restore popup for id \<open>i\<close>, read from the storage when the popup is
  opened (\<open>filterdata.id == id\<close> holds for no array).
\<close>

fun hasId :: "string \<Rightarrow> jsval \<Rightarrow> bool" where
  "hasId i (JObj r) = (id' r = i)"
| "hasId i (JArr xs) = False"

definition openRestorePopup :: "string \<Rightarrow> AppComponent \<Rightarrow> jsval list" where
  "openRestorePopup i app = filter (hasId i) (readDeleted (storage (stateManager app)))"

text \<open>
  A click on the restore button of the row with id \<open>i\<close>. \<open>openRestorePopup\<close> is called
  from the table's click listener only, so the popup for \<open>i\<close> opens only when the table
  shows a row with that id; \<open>None\<close> says that there is no such button to click.
\<close>

definition restoreButton :: "string \<Rightarrow> AppComponent \<Rightarrow> jsval list option" where
  "restoreButton i app =
     (if i \<in> set (tableRows app) then Some (openRestorePopup i app) else None)"

text \<open>
  \<open>handleRestore(rowData)\<close>: \<open>rowData\<close> is a row of the popup, an object parsed from the
  storage that nothing else refers to.
\<close>

definition handleRestore :: "(arg, AppComponent) EventEmitter \<Rightarrow> FormData \<Rightarrow> AppComponent \<Rightarrow> error + AppComponent" where
  "handleRestore em rowData app =
     (case newObject rowData app of
        (k, app0) \<Rightarrow>
          (case emit em ''restoreDeleteData'' [ArgId (id' rowData)] app0 of
             Inl e \<Rightarrow> Inl e
           | Inr app1 \<Rightarrow> emit em ''formSubmit'' [ArgData k] app1))"

text \<open>\<open>handleSubmit\<close> of the form that the application currently shows.\<close>

definition handleSubmit :: "(arg, AppComponent) EventEmitter \<Rightarrow> runtime \<Rightarrow> formValues \<Rightarrow> AppComponent \<Rightarrow> error + AppComponent" where
  "handleSubmit em rt form app =
     (case validateForm rt form (formComponent app) of
        (isValid, fc1) \<Rightarrow>
          let app1 = app\<lparr>formComponent := fc1\<rparr> in
          if isValid then
            let d = \<lparr>id' = (case editId fc1 of
                               None \<Rightarrow> toString_nat (Date_now rt)
                             | Some e \<Rightarrow> if e = [] then toString_nat (Date_now rt) else e),
                     name = form ''name'',
                     phone = form ''phone'',
                     email = form ''email'',
                     dob = form ''dob'',
                     age = parseInt (form ''age'') None,
                     country = form ''country'',
                     state = form ''state'',
                     city = form ''city'',
                     zip' = form ''zip'',
                     restoreData = [],
                     timeStamp = Date_toISOString rt\<rparr>
            in case newObject d app1 of
                 (k, app2) \<Rightarrow>
                   (case (if isEditMode fc1 then emit em ''updateFormData'' [ArgData k] app2
                          else emit em ''formSubmit'' [ArgData k] app2) of
                      Inl e \<Rightarrow> Inl e
                    | Inr app3 \<Rightarrow>
                        Inr (app3\<lparr>formComponent :=
                               render None ((formComponent app3)\<lparr>isEditMode := False, editId := None\<rparr>)\<rparr>))
          else Inr app1)"

section \<open>Sequences of user actions and concrete data\<close>

text \<open>Running actions one after the other; a throw ends the run.\<close>

fun runAll :: "('s \<Rightarrow> error + 's) list \<Rightarrow> 's \<Rightarrow> error + 's" where
  "runAll [] s = Inr s"
| "runAll (f # fs) s = (case f s of Inl e \<Rightarrow> Inl e | Inr s1 \<Rightarrow> runAll fs s1)"

text \<open>What \<open>getData()\<close> and \<open>getDeletedData()\<close> return after a run.\<close>

definition activeAfter :: "error + AppComponent \<Rightarrow> error + FormData list" where
  "activeAfter r = (case r of Inl e \<Rightarrow> Inl e | Inr app \<Rightarrow> Inr (getData (stateManager app)))"

definition deletedAfter :: "error + AppComponent \<Rightarrow> error + jsval list" where
  "deletedAfter r = (case r of Inl e \<Rightarrow> Inl e | Inr app \<Rightarrow> Inr (getDeletedData (stateManager app)))"

text \<open>A runtime, a storage, records and a form to evaluate the program on.\<close>

definition sampleRuntime :: runtime where
  "sampleRuntime =
     \<lparr>Date_getFullYear = (\<lambda>s. if s = ''2000-01-01'' then Some 2000 else None),
      today_getFullYear = 2024,
      Date_now = 1700000000000,
      Date_toISOString = ''2023-11-14T22:13:20.000Z''\<rparr>"

definition emptyStorage :: localStorage where
  "emptyStorage = \<lparr>appStateData = None, appStateDeletedData = None\<rparr>"

definition sampleRecord :: "string \<Rightarrow> FormData" where
  "sampleRecord i =
     \<lparr>id' = i, name = ''Ana'', phone = ''5551234567'', email = ''ana@x.com'',
      dob = ''2000-01-01'', age = Some 24, country = ''USA'', state = ''California'',
      city = ''Los Angeles'', zip' = ''90001'', restoreData = [],
      timeStamp = ''2023-01-01T00:00:00.000Z''\<rparr>"

definition sampleForm :: formValues where
  "sampleForm f =
     (if f = ''name'' then ''Ana''
      else if f = ''phone'' then ''5551234567''
      else if f = ''email'' then ''ana@x.com''
      else if f = ''dob'' then ''2000-01-01''
      else if f = ''age'' then ''24''
      else if f = ''country'' then ''USA''
      else if f = ''state'' then ''California''
      else if f = ''city'' then ''Los Angeles''
      else if f = ''zip'' then ''90001''
      else [])"

text \<open>A page whose storage holds the given active records and no deleted history.\<close>

definition sampleApp :: "FormData list \<Rightarrow> AppComponent" where
  "sampleApp xs = newAppComponent \<lparr>appStateData = Some xs, appStateDeletedData = None\<rparr>"

section \<open>The validation service: first failing rule\<close>

lemma firstFailure_first:
  "\<forall>p \<in> set pre. logic (snd p) v \<Longrightarrow> \<not> logic r v \<Longrightarrow>
   firstFailure (pre @ (n, r) # post) v = Some (errorMessage r)"
  by (induction pre) auto

lemma firstFailure_none:
  "\<forall>p \<in> set rules. logic (snd p) v \<Longrightarrow> firstFailure rules v = None"
  by (induction rules) auto

lemma validateField_table:
  "validateField rt f v =
     (case map_of (validationRules rt) f of None \<Rightarrow> None | Some rules \<Rightarrow> firstFailure rules v)"
  by (simp add: validateField_def getProperty_def split: option.splits)

text \<open>
  Claim C6. For every field name \<open>f\<close> and string \<open>v\<close>: when the rule table has no entry
  for \<open>f\<close>, \<open>validateField\<close> returns \<open>null\<close>. When the entry of \<open>f\<close> is the rules \<open>pre\<close>,
  then the rule \<open>r\<close>, then the rules \<open>post\<close>, every rule of \<open>pre\<close> accepts \<open>v\<close> and \<open>r\<close>
  rejects it, the result is the message of \<open>r\<close>, and it is what the loop computes on
  \<open>pre\<close> and \<open>r\<close> alone, whatever the later rules \<open>post\<close> are. When every rule of \<open>f\<close>
  accepts \<open>v\<close>, the result is \<open>null\<close>.
\<close>

theorem validateField_first_failing_rule:
  "(map_of (validationRules rt) f = None \<longrightarrow> validateField rt f v = None) \<and>
   (map_of (validationRules rt) f = Some (pre @ (n, r) # post) \<and>
      (\<forall>p \<in> set pre. logic (snd p) v) \<and> \<not> logic r v \<longrightarrow>
        validateField rt f v = Some (errorMessage r) \<and>
        validateField rt f v = firstFailure (pre @ [(n, r)]) v) \<and>
   (map_of (validationRules rt) f = Some rules \<and> (\<forall>p \<in> set rules. logic (snd p) v) \<longrightarrow>
        validateField rt f v = None)"
  using firstFailure_first[of pre v r n post] firstFailure_first[of pre v r n "[]"]
    firstFailure_none[of rules v]
  by (auto simp: validateField_table)

theorem validateField_first_failing_rule_witness:
  "map_of (validationRules sampleRuntime) ''nickname'' = None \<and>
   validateField sampleRuntime ''nickname'' ''x'' = None \<and>
   validateField sampleRuntime ''name'' ''ab'' = Some ''Name must be 3 characters or more'' \<and>
   validateField sampleRuntime ''country'' ''USA'' = None"
proof -
  have n: "map_of (validationRules sampleRuntime) ''nickname'' = None"
    by (simp add: validationRules_def)
  have a: "map_of (validationRules sampleRuntime) ''name'' =
      Some ([required ''Name is required''] @
        (''minLength'', \<lparr>logic = (\<lambda>v. length v \<ge> 3),
                          errorMessage = ''Name must be 3 characters or more''\<rparr>) #
        [(''maxLength'', \<lparr>logic = (\<lambda>v. length v \<le> 50),
                          errorMessage = ''Name must be 50 characters or less''\<rparr>)])"
    by (simp add: validationRules_def)
  have a1: "\<forall>p \<in> set [required ''Name is required'']. logic (snd p) ''ab''"
    by (simp add: required_def trim_def isWhiteSpace_def)
  have a2: "\<not> logic \<lparr>logic = (\<lambda>v. length v \<ge> 3),
                          errorMessage = ''Name must be 3 characters or more''\<rparr> ''ab''"
    by simp
  have c: "map_of (validationRules sampleRuntime) ''country'' = Some [required ''Country is required'']"
    by (simp add: validationRules_def)
  have c1: "\<forall>p \<in> set [required ''Country is required'']. logic (snd p) ''USA''"
    by (simp add: required_def trim_def isWhiteSpace_def)
  show ?thesis
    using n a a1 a2 c c1
      validateField_first_failing_rule[where rt = sampleRuntime and f = "''nickname''" and v = "''x''"]
      validateField_first_failing_rule[where rt = sampleRuntime and f = "''name''" and v = "''ab''"
         and pre = "[required ''Name is required'']" and n = "''minLength''"
         and r = "\<lparr>logic = (\<lambda>v. length v \<ge> 3), errorMessage = ''Name must be 3 characters or more''\<rparr>"
         and post = "[(''maxLength'', \<lparr>logic = (\<lambda>v. length v \<le> 50),
                          errorMessage = ''Name must be 50 characters or less''\<rparr>)]"]
      validateField_first_failing_rule[where rt = sampleRuntime and f = "''country''" and v = "''USA''"
         and rules = "[required ''Country is required'']"]
    by simp
qed

section \<open>The validation service: the age field\<close>

lemma age_rules:
  "map_of (validationRules rt) ''age'' =
     Some [required ''Age is required'',
           (''validRange'',
            \<lparr>logic = (\<lambda>v. case parseInt v (Some 10) of
                              None \<Rightarrow> False
                            | Some a \<Rightarrow> a \<ge> 10 \<and> a \<le> 100),
             errorMessage = ''Age must be between 10 and 100''\<rparr>)]"
  by (simp add: validationRules_def)

lemma validateField_age:
  "validateField rt ''age'' v =
     (if trim v = [] then Some ''Age is required''
      else case parseInt v (Some 10) of
             None \<Rightarrow> Some ''Age must be between 10 and 100''
           | Some n \<Rightarrow> if 10 \<le> n \<and> n \<le> 100 then None else Some ''Age must be between 10 and 100'')"
  by (simp add: validateField_table age_rules required_def split: option.splits)

lemma parseInt_15abc: "parseInt ''15abc'' (Some 10) = Some 15"
  by (simp add: parseInt_def isWhiteSpace_def isRadixDigit_def digitValue_def)

lemma trim_15abc: "trim ''15abc'' = ''15abc''"
  by (simp add: trim_def isWhiteSpace_def)

text \<open>
  Claim C10, as the code has it. \<open>validateField("age", v)\<close> returns \<open>null\<close> if and only
  if \<open>v.trim()\<close> is non-empty and \<open>Number.parseInt(v, 10)\<close> lies between 10 and 100;
  \<open>"15abc"\<close> passes; a string that is not blank and in which \<open>parseInt\<close> finds no digit
  (its result is \<open>NaN\<close>) fails with the range message; a blank string fails with the
  required message.
\<close>

theorem validateField_age_amended:
  "(validateField rt ''age'' v = None \<longleftrightarrow>
      trim v \<noteq> [] \<and> (\<exists>n. parseInt v (Some 10) = Some n \<and> 10 \<le> n \<and> n \<le> 100)) \<and>
   validateField rt ''age'' ''15abc'' = None \<and>
   (trim v \<noteq> [] \<and> parseInt v (Some 10) = None \<longrightarrow>
      validateField rt ''age'' v = Some ''Age must be between 10 and 100'') \<and>
   (trim v = [] \<longrightarrow> validateField rt ''age'' v = Some ''Age is required'')"
  by (auto simp: validateField_age parseInt_15abc trim_15abc split: option.splits)

theorem validateField_age_amended_witness:
  "trim ''abc'' \<noteq> [] \<and> parseInt ''abc'' (Some 10) = None \<and>
   validateField sampleRuntime ''age'' ''abc'' = Some ''Age must be between 10 and 100'' \<and>
   trim ''   '' = [] \<and> validateField sampleRuntime ''age'' ''   '' = Some ''Age is required'' \<and>
   validateField sampleRuntime ''age'' ''15abc'' = None"
proof -
  have t: "trim ''abc'' \<noteq> []" by (simp add: trim_def isWhiteSpace_def)
  have p: "parseInt ''abc'' (Some 10) = None"
    by (simp add: parseInt_def isWhiteSpace_def isRadixDigit_def digitValue_def)
  have b: "trim ''   '' = []" by (simp add: trim_def isWhiteSpace_def)
  show ?thesis
    using t p b validateField_age_amended[of sampleRuntime "''abc''"]
      validateField_age_amended[of sampleRuntime "''   ''"]
    by simp
qed

text \<open>
  The empty string has no leading digit, and it fails with the required message, not
  with the range message.
\<close>

theorem validateField_age_blank_counterexample:
  "takeWhile isDigit [] = [] \<and> parseInt [] (Some 10) = None \<and>
   validateField sampleRuntime ''age'' [] = Some ''Age is required'' \<and>
   validateField sampleRuntime ''age'' [] \<noteq> Some ''Age must be between 10 and 100''"
  by (simp add: validateField_age trim_def parseInt_def)

section \<open>The state manager\<close>

text \<open>
  What \<open>setData\<close> does, in one statement: it never throws; \<open>data\<close> becomes the given
  array; the storage gets the contents the objects have before the flush; a staged
  value or object is pushed onto the history with the time stamp, and a staged object
  is stamped in the store.
\<close>

lemma setData_facts:
  "\<exists>sm1. setData x rt sm = Inr sm1 \<and> data sm1 = x \<and>
     objects sm1 =
       (case deletedData sm of
          Ref k \<Rightarrow> (objects sm)(k := (objects sm k)\<lparr>timeStamp := Date_toISOString rt\<rparr>)
        | _ \<Rightarrow> objects sm) \<and>
     appStateData (storage sm1) = Some (map (objects sm) x) \<and>
     getDeletedData sm1 =
       (case deletedData sm of
          Val v \<Rightarrow> getDeletedData sm @ [setTimeStamp (Date_toISOString rt) v]
        | Ref k \<Rightarrow> getDeletedData sm @ [JObj ((objects sm k)\<lparr>timeStamp := Date_toISOString rt\<rparr>)]
        | _ \<Rightarrow> getDeletedData sm) \<and>
     deletedData sm1 = (case deletedData sm of Undefined \<Rightarrow> Undefined | _ \<Rightarrow> Null)"
  by (cases "deletedData sm")
    (simp_all add: setData_def saveData_def deleteData_def getDeletedData_def
      readDeleted_def Let_def)








text \<open>
  Claim C1 says that after \<open>setDeletedData(h)\<close> the call \<open>getDeletedData()\<close> returns \<open>h\<close>.
  On a page with empty storage and \<open>h\<close> the one-record list, it returns a list whose
  only element is the array \<open>h\<close> itself.
\<close>

theorem setDeletedData_nests_history:
  "map_sum id getDeletedData
     (setDeletedData [JObj (sampleRecord ''1'')] sampleRuntime (getInstance emptyStorage))
   = Inr [JArr [JObj (sampleRecord ''1'')]]"
  by (simp add: setDeletedData_def saveData_def deleteData_def readDeleted_def getInstance_def
      loadData_def emptyStorage_def getDeletedData_def Let_def)

text \<open>
  Claim C4 says that the slot \<open>deletedData\<close> never holds a list. Right after the
  constructor, on a page whose storage has a deleted history of one record, the slot
  holds that whole list.
\<close>

theorem loadData_puts_list_in_slot:
  "deletedData (getInstance \<lparr>appStateData = None, appStateDeletedData = Some [JObj (sampleRecord ''1'')]\<rparr>)
     = Val (JArr [JObj (sampleRecord ''1'')])"
  by (simp add: getInstance_def loadData_def)

section \<open>The event emitter\<close>

lemma on_ordinary:
  "n \<notin> set objectPrototypeNames \<Longrightarrow>
   on n cb em = Inr (em\<lparr>listeners := (listeners em)(n \<mapsto> (case listeners em n of None \<Rightarrow> [] | Some l \<Rightarrow> l) @ [cb])\<rparr>)"
  by (simp add: on_def getProperty_def split: option.splits)

lemma emit_ordinary:
  "e \<notin> set objectPrototypeNames \<Longrightarrow>
   emit em e args s = forEach (case listeners em e of None \<Rightarrow> [] | Some l \<Rightarrow> l) args s"
  by (simp add: emit_def getProperty_def split: option.splits)

lemma onAll_ordinary:
  "\<forall>p \<in> set regs. fst p \<notin> set objectPrototypeNames \<Longrightarrow>
   \<exists>em1. onAll regs em = Inr em1 \<and>
     (\<forall>e. (case listeners em1 e of None \<Rightarrow> [] | Some l \<Rightarrow> l) =
          (case listeners em e of None \<Rightarrow> [] | Some l \<Rightarrow> l) @ map snd (filter (\<lambda>p. fst p = e) regs))"
proof (induction regs arbitrary: em)
  case Nil
  then show ?case by simp
next
  case (Cons p regs)
  obtain n cb where p: "p = (n, cb)" by (cases p)
  with Cons.prems have n: "n \<notin> set objectPrototypeNames" by simp
  let ?em = "em\<lparr>listeners := (listeners em)(n \<mapsto> (case listeners em n of None \<Rightarrow> [] | Some l \<Rightarrow> l) @ [cb])\<rparr>"
  from Cons.prems have "\<forall>p \<in> set regs. fst p \<notin> set objectPrototypeNames" by simp
  from Cons.IH[OF this, of ?em] obtain em1 where
    em1: "onAll regs ?em = Inr em1"
      "\<forall>e. (case listeners em1 e of None \<Rightarrow> [] | Some l \<Rightarrow> l) =
          (case listeners ?em e of None \<Rightarrow> [] | Some l \<Rightarrow> l) @ map snd (filter (\<lambda>p. fst p = e) regs)"
    by blast
  have "onAll (p # regs) em = Inr em1"
    using em1(1) by (simp add: p on_ordinary[OF n])
  moreover have "\<forall>e. (case listeners em1 e of None \<Rightarrow> [] | Some l \<Rightarrow> l) =
          (case listeners em e of None \<Rightarrow> [] | Some l \<Rightarrow> l) @ map snd (filter (\<lambda>p. fst p = e) (p # regs))"
    using em1(2) by (auto simp: p)
  ultimately show ?case by blast
qed

text \<open>
  For event names that \<open>Object.prototype\<close> does not define: after any sequence of
  registrations on a new emitter, \<open>emit\<close> runs the callbacks registered under the
  emitted name, in the order of registration, each with the emitted arguments, a
  callback as often as it was registered, and none when none was registered.
\<close>

lemma emit_after_onAll:
  assumes "\<forall>p \<in> set regs. fst p \<notin> set objectPrototypeNames" and "e \<notin> set objectPrototypeNames"
  shows "\<exists>em. onAll regs newEventEmitter = Inr em \<and>
           emit em e args s = forEach (map snd (filter (\<lambda>p. fst p = e) regs)) args s"
proof -
  from onAll_ordinary[OF assms(1), of newEventEmitter] obtain em where
    "onAll regs newEventEmitter = Inr em"
    "\<forall>e. (case listeners em e of None \<Rightarrow> [] | Some l \<Rightarrow> l) =
          (case listeners newEventEmitter e of None \<Rightarrow> [] | Some l \<Rightarrow> l) @ map snd (filter (\<lambda>p. fst p = e) regs)"
    by blast
  then show ?thesis
    by (auto simp: emit_ordinary[OF assms(2)] newEventEmitter_def)
qed

lemma addEventListeners_ok: "addEventListeners rt newEventEmitter = Inr (eventEmitter rt)"
proof -
  have "\<forall>p \<in> set (appListeners rt). fst p \<notin> set objectPrototypeNames"
    by (simp add: appListeners_def objectPrototypeNames_def)
  from onAll_ordinary[OF this, of newEventEmitter]
  show ?thesis by (auto simp: eventEmitter_def addEventListeners_def)
qed

lemma eventEmitter_emit:
  "e \<notin> set objectPrototypeNames \<Longrightarrow>
   emit (eventEmitter rt) e args app = forEach (map snd (filter (\<lambda>p. fst p = e) (appListeners rt))) args app"
proof -
  assume e: "e \<notin> set objectPrototypeNames"
  have "\<forall>p \<in> set (appListeners rt). fst p \<notin> set objectPrototypeNames"
    by (simp add: appListeners_def objectPrototypeNames_def)
  from emit_after_onAll[OF this e, of args app] addEventListeners_ok[of rt]
  show ?thesis by (auto simp: addEventListeners_def)
qed

lemma emit_formSubmit: "emit (eventEmitter rt) ''formSubmit'' [ArgData d] app = addData rt d app"
  by (simp add: eventEmitter_emit objectPrototypeNames_def appListeners_def split: sum.splits)

lemma emit_updateFormData: "emit (eventEmitter rt) ''updateFormData'' [ArgData d] app = updateData rt d app"
  by (simp add: eventEmitter_emit objectPrototypeNames_def appListeners_def split: sum.splits)

lemma emit_deleteData: "emit (eventEmitter rt) ''deleteData'' [ArgId i] app = handleDeleteData rt i app"
  by (simp add: eventEmitter_emit objectPrototypeNames_def appListeners_def split: sum.splits)

lemma emit_restoreDeleteData:
  "emit (eventEmitter rt) ''restoreDeleteData'' [ArgId i] app = handleRestoreDeleteData rt i app"
  by (simp add: eventEmitter_emit objectPrototypeNames_def appListeners_def split: sum.splits)

lemma emit_editItem: "emit (eventEmitter rt) ''editItem'' [ArgId i] app = editItem i app"
  by (simp add: eventEmitter_emit objectPrototypeNames_def appListeners_def split: sum.splits)

text \<open>
  Claim C7 says that for every event name \<open>emit\<close> is a no-op when no callback is
  registered for it. On a new emitter, where nothing is registered, \<open>emit("toString")\<close>
  throws a \<open>TypeError\<close>: \<open>this.listeners["toString"]\<close> is the function inherited from
  \<open>Object.prototype\<close>, which is truthy and has no \<open>forEach\<close>. For the same reason
  \<open>on("toString", cb)\<close> throws at \<open>push\<close>, so no callback can be registered under that name.
\<close>

theorem emit_toString_throws:
  "emit (newEventEmitter :: (arg, AppComponent) EventEmitter) ''toString'' [] (sampleApp []) = Inl TypeError
   \<and> on ''toString'' (\<lambda>args app. Inr app) (newEventEmitter :: (arg, AppComponent) EventEmitter) = Inl TypeError"
  by (simp add: emit_def on_def getProperty_def newEventEmitter_def objectPrototypeNames_def)

section \<open>Handlers called with an id that is not there\<close>

lemma find_absent: "i \<notin> id' ` set (map f xs) \<Longrightarrow> find (\<lambda>item. id' (f item) = i) xs = None"
  by (induction xs) auto

lemma filter_absent: "i \<notin> id' ` set (map f xs) \<Longrightarrow> filter (\<lambda>item. id' (f item) \<noteq> i) xs = xs"
  by (induction xs) auto

lemma handleDeleteData_absent:
  assumes "i \<notin> id' ` set (getData (stateManager app))"
  shows "\<exists>app1. handleDeleteData rt i app = Inr app1 \<and>
        getData (stateManager app1) = getData (stateManager app) \<and>
        getDeletedData (stateManager app1) = getDeletedData (stateManager app)"
proof -
  let ?sm = "(stateManager app)\<lparr>deletedData := Undefined\<rparr>"
  obtain sm1 where s: "setData (data (stateManager app)) rt ?sm = Inr sm1"
      "data sm1 = data (stateManager app)" "objects sm1 = objects ?sm"
      "getDeletedData sm1 = getDeletedData ?sm"
    using setData_facts[of "data (stateManager app)" rt ?sm] by auto
  have "getDeletedData ?sm = getDeletedData (stateManager app)"
    by (simp add: getDeletedData_def)
  with s show ?thesis
    using find_absent[OF assms[unfolded getData_def]] filter_absent[OF assms[unfolded getData_def]]
    by (simp add: handleDeleteData_def initializeComponents_def getData_def Let_def)
qed

lemma handleRestoreDeleteData_absent:
  assumes "i \<notin> id' ` set (getData (stateManager app))"
  shows "\<exists>app1. handleRestoreDeleteData rt i app = Inr app1 \<and>
        getData (stateManager app1) = getData (stateManager app) \<and>
        getDeletedData (stateManager app1) = getDeletedData (stateManager app)"
proof -
  let ?sm = "(stateManager app)\<lparr>deletedData := Null\<rparr>"
  obtain sm1 where s: "setData (data (stateManager app)) rt ?sm = Inr sm1"
      "data sm1 = data (stateManager app)" "objects sm1 = objects ?sm"
      "getDeletedData sm1 = getDeletedData ?sm"
    using setData_facts[of "data (stateManager app)" rt ?sm] by auto
  have "getDeletedData ?sm = getDeletedData (stateManager app)"
    by (simp add: getDeletedData_def)
  with s show ?thesis
    using filter_absent[OF assms[unfolded getData_def]]
    by (simp add: handleRestoreDeleteData_def initializeComponents_def getData_def Let_def)
qed

text \<open>
  Claim C9, as the code has it. Each of the three handlers looks its id up in the
  active set, also the restore handler. For every id that no record of the active set
  carries, the handlers of \<open>editItem\<close>, \<open>deleteData\<close> and \<open>restoreDeleteData\<close> return
  normally, whether called directly or through the emitter; \<open>editItem\<close> changes nothing
  at all, and after the other two \<open>getData()\<close> and \<open>getDeletedData()\<close> return what they
  returned before.
\<close>

theorem absent_id_is_noop:
  assumes "i \<notin> id' ` set (getData (stateManager app))"
  shows "editItem i app = Inr app \<and>
     (\<exists>app1. handleDeleteData rt i app = Inr app1 \<and>
        getData (stateManager app1) = getData (stateManager app) \<and>
        getDeletedData (stateManager app1) = getDeletedData (stateManager app)) \<and>
     (\<exists>app2. handleRestoreDeleteData rt i app = Inr app2 \<and>
        getData (stateManager app2) = getData (stateManager app) \<and>
        getDeletedData (stateManager app2) = getDeletedData (stateManager app)) \<and>
     emit (eventEmitter rt) ''editItem'' [ArgId i] app = editItem i app \<and>
     emit (eventEmitter rt) ''deleteData'' [ArgId i] app = handleDeleteData rt i app \<and>
     emit (eventEmitter rt) ''restoreDeleteData'' [ArgId i] app = handleRestoreDeleteData rt i app"
proof -
  have e: "editItem i app = Inr app"
    by (simp add: editItem_def find_absent[OF assms[unfolded getData_def]])
  from e handleDeleteData_absent[OF assms, of rt] handleRestoreDeleteData_absent[OF assms, of rt]
  show ?thesis
    by (simp add: emit_editItem emit_deleteData emit_restoreDeleteData)
qed

lemma loaded_objects: "map (\<lambda>k. if k < length xs then xs ! k else d) [0..<length xs] = xs"
  by (rule nth_equalityI) auto

lemma sampleApp_data: "getData (stateManager (sampleApp xs)) = xs"
  by (simp add: sampleApp_def newAppComponent_def initializeComponents_def getInstance_def
      loadData_def getData_def loaded_objects)

theorem absent_id_is_noop_witness:
  "''9'' \<notin> id' ` set (getData (stateManager (sampleApp [sampleRecord ''1'', sampleRecord ''2'']))) \<and>
   editItem ''9'' (sampleApp [sampleRecord ''1'', sampleRecord ''2'']) =
     Inr (sampleApp [sampleRecord ''1'', sampleRecord ''2'']) \<and>
   (\<exists>app1. handleDeleteData sampleRuntime ''9'' (sampleApp [sampleRecord ''1'', sampleRecord ''2'']) = Inr app1 \<and>
        getData (stateManager app1) = [sampleRecord ''1'', sampleRecord ''2'']) \<and>
   (\<exists>app2. handleRestoreDeleteData sampleRuntime ''9'' (sampleApp [sampleRecord ''1'', sampleRecord ''2'']) = Inr app2 \<and>
        getData (stateManager app2) = [sampleRecord ''1'', sampleRecord ''2''])"
proof -
  have h: "''9'' \<notin> id' ` set (getData (stateManager (sampleApp [sampleRecord ''1'', sampleRecord ''2''])))"
    by (simp add: sampleApp_data sampleRecord_def)
  show ?thesis
    using h absent_id_is_noop[OF h, of sampleRuntime]
    by (auto simp: sampleApp_data)
qed

section \<open>Deleting a record and the restore popup\<close>

lemma find_id: "find (\<lambda>item. id' (f item) = i) xs = Some k \<Longrightarrow> id' (f k) = i \<and> k \<in> set xs"
  by (induction xs) (auto split: if_splits)

lemma confirm_word: "toLowerCase (trim ''delete'') = ''delete''"
  by (simp add: toLowerCase_def trim_def isWhiteSpace_def)

lemma handleDeleteData_found:
  assumes "find (\<lambda>item. id' (objects (stateManager app) item) = i) (data (stateManager app)) = Some k"
  shows "\<exists>app1. handleDeleteData rt i app = Inr app1 \<and>
        data (stateManager app1) =
          filter (\<lambda>item. id' (objects (stateManager app) item) \<noteq> i) (data (stateManager app)) \<and>
        objects (stateManager app1) =
          (objects (stateManager app))
            (k := (objects (stateManager app) k)\<lparr>timeStamp := Date_toISOString rt\<rparr>) \<and>
        getDeletedData (stateManager app1) =
          getDeletedData (stateManager app) @
            [JObj ((objects (stateManager app) k)\<lparr>timeStamp := Date_toISOString rt\<rparr>)]"
proof -
  let ?sm = "(stateManager app)\<lparr>deletedData := Ref k\<rparr>"
  let ?xs = "filter (\<lambda>item. id' (objects (stateManager app) item) \<noteq> i) (data (stateManager app))"
  obtain sm1 where s: "setData ?xs rt ?sm = Inr sm1" "data sm1 = ?xs"
      "objects sm1 = (objects ?sm)(k := (objects ?sm k)\<lparr>timeStamp := Date_toISOString rt\<rparr>)"
      "getDeletedData sm1 = getDeletedData ?sm @ [JObj ((objects ?sm k)\<lparr>timeStamp := Date_toISOString rt\<rparr>)]"
    using setData_facts[of ?xs rt ?sm] by auto
  have "getDeletedData ?sm = getDeletedData (stateManager app)"
    by (simp add: getDeletedData_def)
  with s show ?thesis
    using assms by (simp add: handleDeleteData_def initializeComponents_def Let_def)
qed

lemma handleDeleteData_ok:
  "\<exists>app1. handleDeleteData rt i app = Inr app1 \<and>
     data (stateManager app1) =
       filter (\<lambda>item. id' (objects (stateManager app) item) \<noteq> i) (data (stateManager app)) \<and>
     (\<forall>j. id' (objects (stateManager app1) j) = id' (objects (stateManager app) j))"
proof (cases "find (\<lambda>item. id' (objects (stateManager app) item) = i) (data (stateManager app))")
  case None
  let ?sm = "(stateManager app)\<lparr>deletedData := Undefined\<rparr>"
  let ?xs = "filter (\<lambda>item. id' (objects (stateManager app) item) \<noteq> i) (data (stateManager app))"
  obtain sm1 where s: "setData ?xs rt ?sm = Inr sm1" "data sm1 = ?xs" "objects sm1 = objects ?sm"
    using setData_facts[of ?xs rt ?sm] by auto
  then show ?thesis
    using None by (simp add: handleDeleteData_def initializeComponents_def Let_def)
next
  case (Some k)
  from handleDeleteData_found[OF Some, of rt] show ?thesis by auto
qed

text \<open>
  From every state: after the deletion of id \<open>i\<close> the table shows no row with id \<open>i\<close>,
  so there is no restore button for it.
\<close>

lemma no_restore_button_after_delete:
  assumes "handleDeleteData rt i app = Inr app1"
  shows "restoreButton i app1 = None"
proof -
  from handleDeleteData_ok[of rt i app] assms have
    d: "data (stateManager app1) =
          filter (\<lambda>item. id' (objects (stateManager app) item) \<noteq> i) (data (stateManager app))"
    and o: "\<forall>j. id' (objects (stateManager app1) j) = id' (objects (stateManager app) j)"
    by auto
  have "i \<notin> set (tableRows app1)"
    by (auto simp: tableRows_def getData_def d o)
  then show ?thesis by (simp add: restoreButton_def)
qed

lemma fresh_ref: "k \<in> set xs \<Longrightarrow> k < Suc (foldr max xs 0)"
  by (induction xs) auto

lemma handleRestoreDeleteData_result:
  "\<exists>app1. handleRestoreDeleteData rt i app = Inr app1 \<and>
        data (stateManager app1) =
          filter (\<lambda>item. id' (objects (stateManager app) item) \<noteq> i) (data (stateManager app)) \<and>
        objects (stateManager app1) = objects (stateManager app) \<and>
        getDeletedData (stateManager app1) = getDeletedData (stateManager app) \<and>
        deletedData (stateManager app1) = Null \<and>
        dataToBeRestore app1 = dataToBeRestore app"
proof -
  let ?sm = "(stateManager app)\<lparr>deletedData := Null\<rparr>"
  let ?xs = "filter (\<lambda>item. id' (objects (stateManager app) item) \<noteq> i) (data (stateManager app))"
  obtain sm1 where s: "setData ?xs rt ?sm = Inr sm1" "data sm1 = ?xs" "objects sm1 = objects ?sm"
      "getDeletedData sm1 = getDeletedData ?sm" "deletedData sm1 = Null"
    using setData_facts[of ?xs rt ?sm] by auto
  have "getDeletedData ?sm = getDeletedData (stateManager app)"
    by (simp add: getDeletedData_def)
  with s show ?thesis
    by (simp add: handleRestoreDeleteData_def initializeComponents_def Let_def)
qed

lemma addData_result:
  assumes "deletedData (stateManager app) = Null"
  shows "\<exists>app1. addData rt d app = Inr app1 \<and>
        data (stateManager app1) = d # data (stateManager app) \<and>
        objects (stateManager app1) = objects (stateManager app) \<and>
        getDeletedData (stateManager app1) = getDeletedData (stateManager app)"
proof -
  obtain sm1 where s: "setData (d # data (stateManager app)) rt (stateManager app) = Inr sm1"
      "data sm1 = d # data (stateManager app)"
      "objects sm1 = objects (stateManager app)"
      "getDeletedData sm1 = getDeletedData (stateManager app)"
    using setData_facts[of "d # data (stateManager app)" rt "stateManager app"] assms by auto
  then show ?thesis by (simp add: addData_def)
qed

text \<open>
  What the handler chain of the restore popup does when it runs: the record from the
  popup goes to position 0, every active record with its id is dropped, and the
  deleted history is not written.
\<close>

lemma handleRestore_result:
  "\<exists>app1. handleRestore (eventEmitter rt) rowData app = Inr app1 \<and>
        getData (stateManager app1) =
          rowData # filter (\<lambda>r. id' r \<noteq> id' rowData) (getData (stateManager app)) \<and>
        getDeletedData (stateManager app1) = getDeletedData (stateManager app)"
proof -
  define sm where "sm = stateManager app"
  define k where "k = Suc (foldr max (data sm @ slotRefs (deletedData sm) @ slotRefs (dataToBeRestore app)) 0)"
  define app0 where "app0 = app\<lparr>stateManager := sm\<lparr>objects := (objects sm)(k := rowData)\<rparr>\<rparr>"
  have n: "newObject rowData app = (k, app0)"
    by (simp add: newObject_def Let_def k_def app0_def sm_def)
  have fresh: "k \<notin> set (data sm)"
    using fresh_ref[of k "data sm @ slotRefs (deletedData sm) @ slotRefs (dataToBeRestore app)"]
    by (auto simp: k_def)
  have o0: "objects (stateManager app0) = (objects sm)(k := rowData)" "data (stateManager app0) = data sm"
    "getDeletedData (stateManager app0) = getDeletedData sm"
    by (simp_all add: app0_def getDeletedData_def)
  have old: "\<And>j. j \<in> set (data sm) \<Longrightarrow> objects (stateManager app0) j = objects sm j"
    using fresh by (auto simp: o0)
  obtain app1 where a1: "handleRestoreDeleteData rt (id' rowData) app0 = Inr app1"
      "data (stateManager app1) =
         filter (\<lambda>item. id' (objects (stateManager app0) item) \<noteq> id' rowData) (data (stateManager app0))"
      "objects (stateManager app1) = objects (stateManager app0)"
      "getDeletedData (stateManager app1) = getDeletedData (stateManager app0)"
      "deletedData (stateManager app1) = Null"
    using handleRestoreDeleteData_result[of rt "id' rowData" app0] by auto
  obtain app2 where a2: "addData rt k app1 = Inr app2"
      "data (stateManager app2) = k # data (stateManager app1)"
      "objects (stateManager app2) = objects (stateManager app1)"
      "getDeletedData (stateManager app2) = getDeletedData (stateManager app1)"
    using addData_result[OF a1(5), of rt k] by auto
  have run: "handleRestore (eventEmitter rt) rowData app = Inr app2"
    using a1(1) a2(1) by (simp add: handleRestore_def n emit_restoreDeleteData emit_formSubmit)
  have d1: "data (stateManager app1) =
         filter (\<lambda>item. id' (objects sm item) \<noteq> id' rowData) (data sm)"
    unfolding a1(2) o0(2) by (rule filter_cong[OF refl]) (simp add: old)
  have m: "map (objects (stateManager app0)) (data (stateManager app1)) =
        map (objects sm) (data (stateManager app1))"
    unfolding d1 by (rule map_cong[OF refl]) (simp add: old)
  have "getData (stateManager app2) =
          rowData # filter (\<lambda>r. id' r \<noteq> id' rowData) (getData sm)"
    by (simp add: getData_def a2(2) a2(3) a1(3) m) (simp add: o0(1) d1 filter_map comp_def)
  moreover have "getDeletedData (stateManager app2) = getDeletedData sm"
    by (simp add: a2(4) a1(4) o0(3))
  ultimately show ?thesis using run by (auto simp: sm_def)
qed

lemma sampleApp_deleted: "getDeletedData (stateManager (sampleApp xs)) = []"
  by (simp add: sampleApp_def newAppComponent_def initializeComponents_def getInstance_def
      loadData_def getDeletedData_def readDeleted_def)

text \<open>
  Claim C3 says that deleting a record and then restoring its id gives back the active
  set with the record at the end, and a deleted history without an entry for the id.
  With two active records, after the first is deleted through the table's popup the
  active set is the second record alone, the history holds the first one with the time
  of its deletion, the table shows the one row of id 2, and there is no restore button
  for id 1: restore buttons belong to the rows of the table, so the program offers no
  way to restore the deleted record.
\<close>

theorem deleted_record_cannot_be_restored:
  "activeAfter (confirmDeleteButton (eventEmitter sampleRuntime) ''delete'' ''1''
                  (sampleApp [sampleRecord ''1'', sampleRecord ''2'']))
     = Inr [sampleRecord ''2''] \<and>
   deletedAfter (confirmDeleteButton (eventEmitter sampleRuntime) ''delete'' ''1''
                   (sampleApp [sampleRecord ''1'', sampleRecord ''2'']))
     = Inr [JObj ((sampleRecord ''1'')\<lparr>timeStamp := ''2023-11-14T22:13:20.000Z''\<rparr>)] \<and>
   map_sum id tableRows
     (confirmDeleteButton (eventEmitter sampleRuntime) ''delete'' ''1''
        (sampleApp [sampleRecord ''1'', sampleRecord ''2'']))
     = Inr [''2''] \<and>
   map_sum id (restoreButton ''1'')
     (confirmDeleteButton (eventEmitter sampleRuntime) ''delete'' ''1''
        (sampleApp [sampleRecord ''1'', sampleRecord ''2'']))
     = Inr None"
  by (simp add: activeAfter_def deletedAfter_def confirmDeleteButton_def confirm_word emit_deleteData
      handleDeleteData_def restoreButton_def tableRows_def openRestorePopup_def
      setData_def saveData_def deleteData_def readDeleted_def getData_def getDeletedData_def
      sampleApp_def newAppComponent_def initializeComponents_def getInstance_def loadData_def
      sampleRecord_def sampleRuntime_def Let_def upt_rec)


section \<open>The restore handler and the deleted history\<close>

text \<open>
  \<open>handleRestoreDeleteData\<close> never reads the deleted history. With two active records
  and an empty history, so that the id of the first record is absent from the history,
  the event \<open>restoreDeleteData\<close> for that id removes the record from the active set.
\<close>

theorem restore_handler_removes_active_record_counterexample:
  "list_ex (hasId ''1'')
     (getDeletedData (stateManager (sampleApp [sampleRecord ''1'', sampleRecord ''2'']))) = False \<and>
   activeAfter (Inr (sampleApp [sampleRecord ''1'', sampleRecord ''2'']))
     = Inr [sampleRecord ''1'', sampleRecord ''2''] \<and>
   activeAfter (emit (eventEmitter sampleRuntime) ''restoreDeleteData'' [ArgId ''1'']
                  (sampleApp [sampleRecord ''1'', sampleRecord ''2'']))
     = Inr [sampleRecord ''2'']"
  by (simp add: activeAfter_def emit_restoreDeleteData handleRestoreDeleteData_def
      setData_def saveData_def deleteData_def readDeleted_def getData_def getDeletedData_def
      sampleApp_def newAppComponent_def initializeComponents_def getInstance_def loadData_def
      sampleRecord_def Let_def upt_rec)

section \<open>The cap on the deleted history\<close>

lemma lower_delete: "toLowerCase ''delete'' = ''delete''"
  by (simp add: toLowerCase_def)

text \<open>
  Claim C2 says that after four confirmed deletions from an empty history
  \<open>getDeletedData()\<close> returns three records. With four active records deleted one after
  the other it returns four entries, on both paths of the program. Through the table's
  popup (\<open>handleDeleteData\<close>) the history is the four records, oldest first, each stamped
  with the time of its deletion: nothing on this path drops an entry. Through the
  delete modal (\<open>confirmDelete\<close>) the list built with \<open>slice(0, 2)\<close> is handed to
  \<open>setDeletedData\<close>, which pushes it as one element, so the history is four nested arrays.
\<close>

theorem four_deletions_keep_four:
  "deletedAfter
     (runAll [confirmDeleteButton (eventEmitter sampleRuntime) ''delete'' ''1'',
              confirmDeleteButton (eventEmitter sampleRuntime) ''delete'' ''2'',
              confirmDeleteButton (eventEmitter sampleRuntime) ''delete'' ''3'',
              confirmDeleteButton (eventEmitter sampleRuntime) ''delete'' ''4'']
        (sampleApp [sampleRecord ''1'', sampleRecord ''2'', sampleRecord ''3'', sampleRecord ''4'']))
   = Inr [JObj ((sampleRecord ''1'')\<lparr>timeStamp := ''2023-11-14T22:13:20.000Z''\<rparr>),
          JObj ((sampleRecord ''2'')\<lparr>timeStamp := ''2023-11-14T22:13:20.000Z''\<rparr>),
          JObj ((sampleRecord ''3'')\<lparr>timeStamp := ''2023-11-14T22:13:20.000Z''\<rparr>),
          JObj ((sampleRecord ''4'')\<lparr>timeStamp := ''2023-11-14T22:13:20.000Z''\<rparr>)] \<and>
   deletedAfter
     (runAll [showDeleteConfirmation ''1'', confirmDelete (eventEmitter sampleRuntime) sampleRuntime ''delete'',
              showDeleteConfirmation ''2'', confirmDelete (eventEmitter sampleRuntime) sampleRuntime ''delete'',
              showDeleteConfirmation ''3'', confirmDelete (eventEmitter sampleRuntime) sampleRuntime ''delete'',
              showDeleteConfirmation ''4'', confirmDelete (eventEmitter sampleRuntime) sampleRuntime ''delete'']
        (sampleApp [sampleRecord ''1'', sampleRecord ''2'', sampleRecord ''3'', sampleRecord ''4'']))
   = Inr [JArr [JObj (sampleRecord ''1'')],
          JArr [JObj (sampleRecord ''2''), JArr [JObj (sampleRecord ''1'')]],
          JArr [JObj (sampleRecord ''3''), JArr [JObj (sampleRecord ''1'')],
                JArr [JObj (sampleRecord ''2''), JArr [JObj (sampleRecord ''1'')]]],
          JArr [JObj (sampleRecord ''4''), JArr [JObj (sampleRecord ''1'')],
                JArr [JObj (sampleRecord ''2''), JArr [JObj (sampleRecord ''1'')]]]]"
  by (simp add: deletedAfter_def confirmDeleteButton_def confirm_word lower_delete emit_deleteData
      handleDeleteData_def confirmDelete_def showDeleteConfirmation_def
      setData_def setDeletedData_def saveData_def deleteData_def readDeleted_def getData_def getDeletedData_def
      sampleApp_def newAppComponent_def initializeComponents_def getInstance_def loadData_def
      sampleRecord_def sampleRuntime_def Let_def upt_rec)

section \<open>Nothing is staged between two actions\<close>

text \<open>
  \<open>setData\<close> flushes the slot \<open>deletedData\<close>, and every handler that stages an object
  calls \<open>setData\<close> before it returns. So after the constructor and after every action
  of the user the slot holds no record object: it holds one only inside \<open>updateData\<close>
  and \<open>handleDeleteData\<close>.
\<close>

lemma setData_unstaged: "setData x rt sm = Inr sm1 \<Longrightarrow> deletedData sm1 \<noteq> Ref k"
  using setData_facts[of x rt sm] by (cases "deletedData sm") auto

lemma newAppComponent_unstaged: "deletedData (stateManager (newAppComponent ls)) \<noteq> Ref k"
  by (simp add: newAppComponent_def initializeComponents_def getInstance_def loadData_def
      split: option.splits)

lemma addData_unstaged: "addData rt d app = Inr app1 \<Longrightarrow> deletedData (stateManager app1) \<noteq> Ref k"
  by (auto simp: addData_def Let_def split: sum.splits dest: setData_unstaged)

lemma updateData_unstaged: "updateData rt d app = Inr app1 \<Longrightarrow> deletedData (stateManager app1) \<noteq> Ref k"
  by (auto simp: updateData_def Let_def split: sum.splits dest: setData_unstaged)

lemma handleDeleteData_unstaged:
  "handleDeleteData rt i app = Inr app1 \<Longrightarrow> deletedData (stateManager app1) \<noteq> Ref k"
  by (auto simp: handleDeleteData_def initializeComponents_def Let_def split: sum.splits
      dest: setData_unstaged)

lemma handleRestoreDeleteData_unstaged:
  "handleRestoreDeleteData rt i app = Inr app1 \<Longrightarrow> deletedData (stateManager app1) \<noteq> Ref k"
  by (auto simp: handleRestoreDeleteData_def initializeComponents_def Let_def split: sum.splits
      dest: setData_unstaged)

lemma editItem_unstaged:
  "editItem i app = Inr app1 \<Longrightarrow> deletedData (stateManager app1) = deletedData (stateManager app)"
  by (auto simp: editItem_def Let_def split: option.splits)

lemma handleSubmit_unstaged:
  assumes "handleSubmit (eventEmitter rt) rt form app = Inr app1"
    and "deletedData (stateManager app) \<noteq> Ref k"
  shows "deletedData (stateManager app1) \<noteq> Ref k"
  using assms
  by (auto simp: handleSubmit_def newObject_def Let_def emit_updateFormData emit_formSubmit
      split: prod.splits if_splits sum.splits dest: addData_unstaged updateData_unstaged)

lemma handleRestore_unstaged:
  "handleRestore (eventEmitter rt) rowData app = Inr app1 \<Longrightarrow> deletedData (stateManager app1) \<noteq> Ref k"
  by (auto simp: handleRestore_def newObject_def Let_def emit_restoreDeleteData emit_formSubmit
      split: prod.splits sum.splits dest: addData_unstaged)

lemma confirmDeleteButton_unstaged:
  assumes "confirmDeleteButton (eventEmitter rt) inputValue i app = Inr app1"
    and "deletedData (stateManager app) \<noteq> Ref k"
  shows "deletedData (stateManager app1) \<noteq> Ref k"
  using assms
  by (auto simp: confirmDeleteButton_def emit_deleteData split: if_splits dest: handleDeleteData_unstaged)

lemma confirmDelete_unstaged:
  assumes "confirmDelete (eventEmitter rt) rt inputValue app = Inr app1"
    and "deletedData (stateManager app) \<noteq> Ref k"
  shows "deletedData (stateManager app1) \<noteq> Ref k"
  using assms
  by (auto simp: confirmDelete_def emit_deleteData Let_def
      split: option.splits if_splits sum.splits dest: handleDeleteData_unstaged)

section \<open>Submitting the form in create mode\<close>

lemma take_two: "take 2 xs = [a, b] \<Longrightarrow> \<exists>rest. xs = a # b # rest"
  by (cases xs; cases "tl xs") auto

lemma hex_prefix_reads_zero:
  assumes "take 2 S1 = ''0x'' \<or> take 2 S1 = ''0X''"
  shows "takeWhile (isRadixDigit 10) S1 = ''0''"
proof -
  from assms obtain rest where "S1 = CHR ''0'' # CHR ''x'' # rest \<or> S1 = CHR ''0'' # CHR ''X'' # rest"
    using take_two[of S1 "CHR ''0''" "CHR ''x''"] take_two[of S1 "CHR ''0''" "CHR ''X''"] by auto
  then show ?thesis
    by (auto simp: isRadixDigit_def digitValue_def)
qed

lemma parseInt_default_radix:
  assumes "parseInt v (Some 10) = Some n" and "10 \<le> n"
  shows "parseInt v None = Some n"
proof -
  let ?S = "dropWhile isWhiteSpace v"
  let ?S1 = "if ?S \<noteq> [] \<and> (hd ?S = CHR ''+'' \<or> hd ?S = CHR ''-'') then tl ?S else ?S"
  have nohex: "\<not> (take 2 ?S1 = ''0x'' \<or> take 2 ?S1 = ''0X'')"
  proof
    assume "take 2 ?S1 = ''0x'' \<or> take 2 ?S1 = ''0X''"
    then have "takeWhile (isRadixDigit 10) ?S1 = ''0''"
      by (rule hex_prefix_reads_zero)
    then have "parseInt v (Some 10) = Some 0"
      by (simp add: parseInt_def Let_def digitValue_def)
    with assms show False by simp
  qed
  have "parseInt v None = parseInt v (Some 10)"
    using nohex by (simp add: parseInt_def Let_def)
  with assms show ?thesis by simp
qed

lemma validateFields_mode:
  "isEditMode (snd (validateFields rt form fs (b, fc))) = isEditMode fc \<and>
   editId (snd (validateFields rt form fs (b, fc))) = editId fc"
  by (induction fs arbitrary: b fc)
    (auto simp: Let_def FormComponent_validateField_def split: option.splits)

lemma validateFields_valid:
  "fst (validateFields rt form fs (b, fc)) \<Longrightarrow>
   b \<and> (\<forall>f \<in> set fs. validateField rt f (form f) = None \<or> validateField rt f (form f) = Some [])"
proof (induction fs arbitrary: b fc)
  case Nil
  then show ?case by simp
next
  case (Cons f fs)
  let ?fc1 = "FormComponent_validateField rt form f fc"
  let ?b1 = "case errors ?fc1 f of None \<Rightarrow> b | Some m \<Rightarrow> if m \<noteq> [] then False else b"
  from Cons.prems have v: "fst (validateFields rt form fs (?b1, ?fc1))"
    by (simp add: Let_def)
  from Cons.IH[OF v] have b1: "?b1" and rest: "\<forall>f \<in> set fs. validateField rt f (form f) = None \<or> validateField rt f (form f) = Some []"
    by auto
  from b1 have "b \<and> (validateField rt f (form f) = None \<or> validateField rt f (form f) = Some [])"
    by (auto simp: FormComponent_validateField_def split: option.splits if_splits)
  with rest show ?case by simp
qed

lemma valid_form_age:
  assumes "fst (validateForm rt form fc)"
  shows "\<exists>n. parseInt (form ''age'') None = Some n \<and> parseInt (form ''age'') (Some 10) = Some n \<and>
              10 \<le> n \<and> n \<le> 100"
proof -
  from validateFields_valid[OF assms[unfolded validateForm_def]]
  have "validateField rt ''age'' (form ''age'') = None \<or> validateField rt ''age'' (form ''age'') = Some []"
    by (simp add: formFields_def)
  then have "validateField rt ''age'' (form ''age'') = None"
    by (auto simp: validateField_age split: if_splits option.splits)
  then obtain n where n: "parseInt (form ''age'') (Some 10) = Some n" "10 \<le> n" "n \<le> 100"
    by (auto simp: validateField_age split: if_splits option.splits)
  with parseInt_default_radix[OF n(1,2)] show ?thesis by simp
qed


lemma sampleForm_required:
  "validateField sampleRuntime ''country'' (sampleForm ''country'') = None"
  "validateField sampleRuntime ''state'' (sampleForm ''state'') = None"
  "validateField sampleRuntime ''city'' (sampleForm ''city'') = None"
  by (simp_all add: validateField_table validationRules_def required_def sampleForm_def
      trim_def isWhiteSpace_def)

lemma sampleForm_name: "validateField sampleRuntime ''name'' (sampleForm ''name'') = None"
  by (simp add: validateField_table validationRules_def required_def sampleForm_def
      trim_def isWhiteSpace_def)

lemma sampleForm_phone: "validateField sampleRuntime ''phone'' (sampleForm ''phone'') = None"
  by (simp add: validateField_table validationRules_def required_def sampleForm_def
      trim_def isWhiteSpace_def phoneRegex_def isDigit_def eval_nat_numeral)

lemma sampleForm_email: "validateField sampleRuntime ''email'' (sampleForm ''email'') = None"
  by (simp add: validateField_table validationRules_def required_def sampleForm_def
      trim_def isWhiteSpace_def emailRegex_def Plus_def Lit_def notSpaceAt_def)

lemma sampleForm_dob: "validateField sampleRuntime ''dob'' (sampleForm ''dob'') = None"
  by (simp add: validateField_table validationRules_def required_def sampleForm_def
      trim_def isWhiteSpace_def sampleRuntime_def)

lemma sampleForm_age: "validateField sampleRuntime ''age'' (sampleForm ''age'') = None"
  by (simp add: validateField_age sampleForm_def trim_def isWhiteSpace_def parseInt_def
      isRadixDigit_def digitValue_def)

lemma sampleForm_zip: "validateField sampleRuntime ''zip'' (sampleForm ''zip'') = None"
  by (simp add: validateField_table validationRules_def required_def sampleForm_def
      trim_def isWhiteSpace_def zipRegex_def isDigit_def eval_nat_numeral Opt_def Lit_def)

lemmas sampleForm_passes = sampleForm_required sampleForm_name sampleForm_phone sampleForm_email
  sampleForm_dob sampleForm_age sampleForm_zip

lemma sampleForm_valid: "fst (validateForm sampleRuntime sampleForm fc)"
  by (simp add: validateForm_def formFields_def FormComponent_validateField_def sampleForm_passes Let_def)

lemma now_string: "toString_nat (Date_now sampleRuntime) = ''1700000000000''"
proof -
  have "toString_nat 1700000000000 = ''1700000000000''"
    by (simp add: toString_nat.simps digitChar_def)
  then show ?thesis by (simp add: sampleRuntime_def)
qed

lemma sampleApp_form: "formComponent (sampleApp xs) = newFormComponent"
  by (simp add: sampleApp_def newAppComponent_def initializeComponents_def render_def newFormComponent_def)

lemma handleSubmit_create:
  assumes valid: "fst (validateForm rt form (formComponent app))"
    and create: "\<not> isEditMode (formComponent app)" "editId (formComponent app) = None"
  shows "\<exists>app1 k. handleSubmit (eventEmitter rt) rt form app = Inr app1 \<and>
           data (stateManager app1) = k # data (stateManager app) \<and>
           k \<notin> set (data (stateManager app)) \<and>
           objects (stateManager app1) k =
             \<lparr>id' = toString_nat (Date_now rt), name = form ''name'', phone = form ''phone'',
              email = form ''email'', dob = form ''dob'', age = parseInt (form ''age'') None,
              country = form ''country'', state = form ''state'', city = form ''city'',
              zip' = form ''zip'', restoreData = [], timeStamp = Date_toISOString rt\<rparr> \<and>
           map (objects (stateManager app1)) (data (stateManager app)) =
             map (\<lambda>j. if deletedData (stateManager app) = Ref j
                       then (objects (stateManager app) j)\<lparr>timeStamp := Date_toISOString rt\<rparr>
                       else objects (stateManager app) j) (data (stateManager app))"
proof -
  obtain b fc1 where v: "validateForm rt form (formComponent app) = (b, fc1)"
    by (cases "validateForm rt form (formComponent app)")
  with valid have b: "b" by simp
  from v validateFields_mode[of rt form formFields True "formComponent app"] create
  have m: "\<not> isEditMode fc1" "editId fc1 = None"
    by (simp_all add: validateForm_def)
  define d where "d = \<lparr>id' = toString_nat (Date_now rt), name = form ''name'', phone = form ''phone'',
              email = form ''email'', dob = form ''dob'', age = parseInt (form ''age'') None,
              country = form ''country'', state = form ''state'', city = form ''city'',
              zip' = form ''zip'', restoreData = [], timeStamp = Date_toISOString rt\<rparr>"
  define sm where "sm = stateManager app"
  define k where "k = Suc (foldr max (data sm @ slotRefs (deletedData sm) @ slotRefs (dataToBeRestore app)) 0)"
  define app2 where "app2 = app\<lparr>formComponent := fc1,
                                  stateManager := sm\<lparr>objects := (objects sm)(k := d)\<rparr>\<rparr>"
  have n: "newObject d (app\<lparr>formComponent := fc1\<rparr>) = (k, app2)"
    by (simp add: newObject_def Let_def k_def app2_def sm_def)
  have fresh: "k \<notin> set (data sm)" "Ref k \<noteq> deletedData sm"
    using fresh_ref[of k "data sm @ slotRefs (deletedData sm) @ slotRefs (dataToBeRestore app)"]
      fresh_ref[of _ "data sm @ slotRefs (deletedData sm) @ slotRefs (dataToBeRestore app)"]
    by (auto simp: k_def) (cases "deletedData sm"; auto)
  have s2: "stateManager app2 = sm\<lparr>objects := (objects sm)(k := d)\<rparr>"
    by (simp add: app2_def)
  obtain sm3 where s: "setData (k # data sm) rt (stateManager app2) = Inr sm3"
      "data sm3 = k # data sm"
      "objects sm3 =
         (case deletedData (stateManager app2) of
            Ref j \<Rightarrow> (objects (stateManager app2))
                       (j := (objects (stateManager app2) j)\<lparr>timeStamp := Date_toISOString rt\<rparr>)
          | _ \<Rightarrow> objects (stateManager app2))"
    using setData_facts[of "k # data sm" rt "stateManager app2"] by blast
  have add: "addData rt k app2 = Inr (app2\<lparr>stateManager := sm3\<rparr>)"
    using s(1) by (simp add: addData_def s2)
  have run: "handleSubmit (eventEmitter rt) rt form app =
      Inr (app2\<lparr>stateManager := sm3,
                formComponent := render None ((formComponent app2)\<lparr>isEditMode := False, editId := None\<rparr>)\<rparr>)"
    using add by (simp add: handleSubmit_def v b m n emit_formSubmit d_def[symmetric])
  have ok: "objects sm3 k = d"
    using fresh(2) by (cases "deletedData sm") (auto simp: s(3) s2)
  have old: "map (objects sm3) (data sm) =
             map (\<lambda>j. if deletedData sm = Ref j
                       then (objects sm j)\<lparr>timeStamp := Date_toISOString rt\<rparr>
                       else objects sm j) (data sm)"
    using fresh(1) by (cases "deletedData sm") (auto simp: s(3) s2)
  show ?thesis
    using run s(2) fresh(1) ok old by (simp add: sm_def d_def)
qed

text \<open>
  Claim C5, as the code has it. For every active set and every form whose nine fields
  pass validation, submitted in create mode: \<open>handleSubmit\<close> returns normally and the
  active set becomes a new record object at position 0 followed by the objects from
  before in their order. The contents of the objects from before are unchanged, except
  that an object staged in \<open>deletedData\<close> gets the time of the call as its time stamp;
  so when no object of the active set is staged, which is so after the constructor and
  after every action of the user (section above), \<open>getData()\<close> returns the new record
  followed by the records it returned before. The new record has the submitted strings
  as \<open>name\<close>, \<open>phone\<close>, \<open>email\<close>, \<open>dob\<close>, \<open>country\<close>, \<open>state\<close>, \<open>city\<close> and \<open>zip\<close>; its \<open>age\<close>
  is the integer between 10 and 100 that \<open>parseInt\<close> reads from the submitted age; its
  \<open>id\<close> is the decimal string of \<open>Date.now()\<close>, and so it differs from the id of every
  record from before whenever none of them carries that string.
\<close>

theorem submitCreate_amended:
  assumes "fst (validateForm rt form (formComponent app))"
    and "\<not> isEditMode (formComponent app)" and "editId (formComponent app) = None"
  shows "\<exists>app1 r k. handleSubmit (eventEmitter rt) rt form app = Inr app1 \<and>
           data (stateManager app1) = k # data (stateManager app) \<and>
           k \<notin> set (data (stateManager app)) \<and>
           getData (stateManager app1) =
             r # map (\<lambda>j. if deletedData (stateManager app) = Ref j
                           then (objects (stateManager app) j)\<lparr>timeStamp := Date_toISOString rt\<rparr>
                           else objects (stateManager app) j) (data (stateManager app)) \<and>
           (deletedData (stateManager app) \<notin> Ref ` set (data (stateManager app)) \<longrightarrow>
              getData (stateManager app1) = r # getData (stateManager app)) \<and>
           name r = form ''name'' \<and> phone r = form ''phone'' \<and> email r = form ''email'' \<and>
           dob r = form ''dob'' \<and> country r = form ''country'' \<and> state r = form ''state'' \<and>
           city r = form ''city'' \<and> zip' r = form ''zip'' \<and>
           (\<exists>n. age r = Some n \<and> parseInt (form ''age'') (Some 10) = Some n \<and> 10 \<le> n \<and> n \<le> 100) \<and>
           id' r = toString_nat (Date_now rt) \<and>
           ((\<forall>x \<in> set (getData (stateManager app)). id' x \<noteq> toString_nat (Date_now rt)) \<longrightarrow>
            (\<forall>x \<in> set (getData (stateManager app)). id' x \<noteq> id' r))"
proof -
  define d where "d = \<lparr>id' = toString_nat (Date_now rt), name = form ''name'', phone = form ''phone'',
              email = form ''email'', dob = form ''dob'', age = parseInt (form ''age'') None,
              country = form ''country'', state = form ''state'', city = form ''city'',
              zip' = form ''zip'', restoreData = [], timeStamp = Date_toISOString rt\<rparr>"
  from handleSubmit_create[OF assms] obtain app1 k where
    a: "handleSubmit (eventEmitter rt) rt form app = Inr app1"
       "data (stateManager app1) = k # data (stateManager app)"
       "k \<notin> set (data (stateManager app))"
       "objects (stateManager app1) k = d"
       "map (objects (stateManager app1)) (data (stateManager app)) =
             map (\<lambda>j. if deletedData (stateManager app) = Ref j
                       then (objects (stateManager app) j)\<lparr>timeStamp := Date_toISOString rt\<rparr>
                       else objects (stateManager app) j) (data (stateManager app))"
    unfolding d_def by blast
  from valid_form_age[OF assms(1)] obtain n where
    n: "parseInt (form ''age'') None = Some n" "parseInt (form ''age'') (Some 10) = Some n"
       "10 \<le> n" "n \<le> 100"
    by blast
  have g: "getData (stateManager app1) =
             d # map (\<lambda>j. if deletedData (stateManager app) = Ref j
                           then (objects (stateManager app) j)\<lparr>timeStamp := Date_toISOString rt\<rparr>
                           else objects (stateManager app) j) (data (stateManager app))"
    by (simp add: getData_def a(2) a(4) a(5))
  have c: "deletedData (stateManager app) \<notin> Ref ` set (data (stateManager app)) \<longrightarrow>
              getData (stateManager app1) = d # getData (stateManager app)"
  proof
    assume h: "deletedData (stateManager app) \<notin> Ref ` set (data (stateManager app))"
    have "map (\<lambda>j. if deletedData (stateManager app) = Ref j
                  then (objects (stateManager app) j)\<lparr>timeStamp := Date_toISOString rt\<rparr>
                  else objects (stateManager app) j) (data (stateManager app))
          = map (objects (stateManager app)) (data (stateManager app))"
      by (rule map_cong[OF refl]) (use h in auto)
    then show "getData (stateManager app1) = d # getData (stateManager app)"
      unfolding g by (simp add: getData_def)
  qed
  have f: "name d = form ''name''" "phone d = form ''phone''" "email d = form ''email''"
    "dob d = form ''dob''" "country d = form ''country''" "state d = form ''state''"
    "city d = form ''city''" "zip' d = form ''zip''" "age d = parseInt (form ''age'') None"
    "id' d = toString_nat (Date_now rt)"
    by (simp_all add: d_def)
  show ?thesis
    apply (rule exI[of _ app1])
    apply (rule exI[of _ d])
    apply (rule exI[of _ k])
    using a(1,2,3) g c f n by simp
qed

theorem submitCreate_amended_witness:
  "fst (validateForm sampleRuntime sampleForm (formComponent (sampleApp [sampleRecord ''1'']))) \<and>
   \<not> isEditMode (formComponent (sampleApp [sampleRecord ''1''])) \<and>
   editId (formComponent (sampleApp [sampleRecord ''1''])) = None \<and>
   deletedData (stateManager (sampleApp [sampleRecord ''1''])) = Null \<and>
   toString_nat (Date_now sampleRuntime) \<notin> id' ` set (getData (stateManager (sampleApp [sampleRecord ''1'']))) \<and>
   (\<exists>app1 r. handleSubmit (eventEmitter sampleRuntime) sampleRuntime sampleForm (sampleApp [sampleRecord ''1'']) = Inr app1 \<and>
      getData (stateManager app1) = [r, sampleRecord ''1''] \<and>
      name r = ''Ana'' \<and> age r = Some 24 \<and> id' r = ''1700000000000'' \<and> id' r \<noteq> id' (sampleRecord ''1''))"
proof -
  have v: "fst (validateForm sampleRuntime sampleForm (formComponent (sampleApp [sampleRecord ''1''])))"
    by (rule sampleForm_valid)
  have m: "\<not> isEditMode (formComponent (sampleApp [sampleRecord ''1'']))"
    by (simp add: sampleApp_form newFormComponent_def)
  have e: "editId (formComponent (sampleApp [sampleRecord ''1''])) = None"
    by (simp add: sampleApp_form newFormComponent_def)
  have s: "deletedData (stateManager (sampleApp [sampleRecord ''1''])) = Null"
    by (simp add: sampleApp_def newAppComponent_def initializeComponents_def getInstance_def loadData_def)
  then have s': "deletedData (stateManager (sampleApp [sampleRecord ''1''])) \<notin>
      Ref ` set (data (stateManager (sampleApp [sampleRecord ''1''])))"
    by auto
  have f: "toString_nat (Date_now sampleRuntime) \<notin> id' ` set (getData (stateManager (sampleApp [sampleRecord ''1''])))"
    by (simp add: sampleApp_data now_string sampleRecord_def)
  have p: "parseInt (sampleForm ''age'') (Some 10) = Some 24"
    by (simp add: sampleForm_def parseInt_def isWhiteSpace_def isRadixDigit_def digitValue_def)
  have n: "sampleForm ''name'' = ''Ana''" by (simp add: sampleForm_def)
  have i: "id' (sampleRecord ''1'') = ''1''" by (simp add: sampleRecord_def)
  from submitCreate_amended[OF v m e] s' obtain app1 r where
    a: "handleSubmit (eventEmitter sampleRuntime) sampleRuntime sampleForm (sampleApp [sampleRecord ''1'']) = Inr app1"
       "getData (stateManager app1) = r # getData (stateManager (sampleApp [sampleRecord ''1'']))"
       "name r = sampleForm ''name''"
       "\<exists>n. age r = Some n \<and> parseInt (sampleForm ''age'') (Some 10) = Some n \<and> 10 \<le> n \<and> n \<le> 100"
       "id' r = toString_nat (Date_now sampleRuntime)"
    by blast
  from a(4) p have ag: "age r = Some 24" by auto
  have "getData (stateManager app1) = [r, sampleRecord ''1'']"
    using a(2) by (simp only: sampleApp_data)
  moreover have "name r = ''Ana''" using a(3) n by simp
  moreover have "id' r = ''1700000000000''" using a(5) now_string by simp
  moreover have "id' r \<noteq> id' (sampleRecord ''1'')" using a(5) now_string i by simp
  ultimately show ?thesis using v m e s f a(1) ag by blast
qed

text \<open>
  A valid form submitted in create mode at the millisecond whose decimal string is
  already the id of an active record: the new record gets the same id.
\<close>

theorem submitCreate_duplicate_id_counterexample:
  "fst (validateForm sampleRuntime sampleForm (formComponent (sampleApp [sampleRecord ''1700000000000'']))) \<and>
   \<not> isEditMode (formComponent (sampleApp [sampleRecord ''1700000000000''])) \<and>
   map_sum id (map id')
     (activeAfter (handleSubmit (eventEmitter sampleRuntime) sampleRuntime sampleForm
                     (sampleApp [sampleRecord ''1700000000000''])))
     = Inr [''1700000000000'', ''1700000000000'']"
proof -
  have v: "fst (validateForm sampleRuntime sampleForm (formComponent (sampleApp [sampleRecord ''1700000000000''])))"
    by (rule sampleForm_valid)
  have m: "\<not> isEditMode (formComponent (sampleApp [sampleRecord ''1700000000000'']))"
    by (simp add: sampleApp_form newFormComponent_def)
  have e: "editId (formComponent (sampleApp [sampleRecord ''1700000000000''])) = None"
    by (simp add: sampleApp_form newFormComponent_def)
  have s: "deletedData (stateManager (sampleApp [sampleRecord ''1700000000000''])) = Null"
    by (simp add: sampleApp_def newAppComponent_def initializeComponents_def getInstance_def loadData_def)
  from handleSubmit_create[OF v m e] obtain app1 k where
    a: "handleSubmit (eventEmitter sampleRuntime) sampleRuntime sampleForm (sampleApp [sampleRecord ''1700000000000'']) = Inr app1"
       "data (stateManager app1) = k # data (stateManager (sampleApp [sampleRecord ''1700000000000'']))"
       "id' (objects (stateManager app1) k) = toString_nat (Date_now sampleRuntime)"
       "map (objects (stateManager app1)) (data (stateManager (sampleApp [sampleRecord ''1700000000000'']))) =
          map (objects (stateManager (sampleApp [sampleRecord ''1700000000000''])))
            (data (stateManager (sampleApp [sampleRecord ''1700000000000''])))"
    by (auto simp: s)
  have "getData (stateManager app1) =
        objects (stateManager app1) k # getData (stateManager (sampleApp [sampleRecord ''1700000000000'']))"
    using a(2,4) by (simp add: getData_def)
  then have "map id' (getData (stateManager app1)) = [''1700000000000'', ''1700000000000'']"
    using a(3) by (simp add: sampleApp_data now_string sampleRecord_def)
  then show ?thesis
    using v m by (simp add: a(1) activeAfter_def)
qed

section \<open>Editing a record with the empty id\<close>

text \<open>
  The program reaches a state in which \<open>setData\<close> is handed the staged object. A page
  whose one stored record has the empty id; the record is edited and a valid form is
  submitted.
  \<open>render\<close> leaves \<open>editId\<close> null for the empty id, so the submitted record gets a new
  id and replaces nothing; the edited object is staged and is still in the array that
  \<open>updateData\<close> hands to \<open>setData\<close>, and \<open>getData()\<close> then shows it with the new time stamp.
\<close>

lemma edit_of_empty_id_stamps_active_record:
  "activeAfter
     (runAll [emit (eventEmitter sampleRuntime) ''editItem'' [ArgId []],
              handleSubmit (eventEmitter sampleRuntime) sampleRuntime sampleForm]
        (sampleApp [sampleRecord []]))
   = Inr [(sampleRecord [])\<lparr>timeStamp := ''2023-11-14T22:13:20.000Z''\<rparr>]"
proof -
  define app1 where "app1 =
    (sampleApp [sampleRecord []])
      \<lparr>dataToBeRestore := Ref 0,
       formComponent := render (Some (sampleRecord [])) (formComponent (sampleApp [sampleRecord []]))\<rparr>"
  have e: "emit (eventEmitter sampleRuntime) ''editItem'' [ArgId []] (sampleApp [sampleRecord []]) = Inr app1"
    by (simp add: emit_editItem editItem_def app1_def sampleApp_def newAppComponent_def
        initializeComponents_def getInstance_def loadData_def sampleRecord_def Let_def upt_rec)
  have fc: "isEditMode (formComponent app1)" "editId (formComponent app1) = None"
    by (simp_all add: app1_def render_def sampleRecord_def)
  obtain b fc1 where v: "validateForm sampleRuntime sampleForm (formComponent app1) = (b, fc1)"
    by (cases "validateForm sampleRuntime sampleForm (formComponent app1)")
  with sampleForm_valid[of "formComponent app1"] have b: "b" by simp
  from v validateFields_mode[of sampleRuntime sampleForm formFields True "formComponent app1"] fc
  have m: "isEditMode fc1" "editId fc1 = None"
    by (simp_all add: validateForm_def)
  have sm: "stateManager app1 =
      \<lparr>objects = (\<lambda>k. if k < 1 then [sampleRecord []] ! k else noObject), data = [0],
       deletedData = Null,
       storage = \<lparr>appStateData = Some [sampleRecord []], appStateDeletedData = None\<rparr>\<rparr>"
    "dataToBeRestore app1 = Ref 0"
    by (simp_all add: app1_def sampleApp_def newAppComponent_def initializeComponents_def
        getInstance_def loadData_def upt_rec)
  have i: "id' (sampleRecord []) \<noteq> toString_nat (Date_now sampleRuntime)"
    by (simp add: now_string sampleRecord_def)
  have "activeAfter (handleSubmit (eventEmitter sampleRuntime) sampleRuntime sampleForm app1)
          = Inr [(sampleRecord [])\<lparr>timeStamp := ''2023-11-14T22:13:20.000Z''\<rparr>]"
    using i
    by (simp add: handleSubmit_def v b m newObject_def emit_updateFormData updateData_def
        setData_def saveData_def deleteData_def readDeleted_def getData_def activeAfter_def sm
        Let_def) (simp add: sampleRuntime_def)
  then show ?thesis
    by (cases "handleSubmit (eventEmitter sampleRuntime) sampleRuntime sampleForm app1")
      (simp_all add: e activeAfter_def)
qed

end
